theory Spec2Isabelle
  imports Main
begin

section \<open>Appointment scheduling: overlap detection, lifecycle store, notifications, calendar artifacts\<close>

text \<open>
  A shallow embedding of the scheduling core of the repository: the client hook
  \<open>useAppointments\<close> (overlap validation, create, update, delete), the shared
  \<open>AppointmentsService\<close> with the SQL functions it calls, the \<open>EmailService\<close> retry
  loop, the appointment e-mail orchestrator, the \<open>ICSGenerator\<close> and the time-policy
  predicates of the utilities package.

  Conventions. A timestamp (\<open>ISODateString\<close>, \<open>timestamptz\<close>, a valid \<open>Date\<close>) is the
  instant it denotes, an \<open>int\<close> of milliseconds since the epoch. A string is a list of
  8-bit characters; text outside ASCII is written as its UTF-8 bytes. A JavaScript
  exception is a value of type \<open>thrown\<close>, and a function that can throw returns
  \<open>thrown + 'a\<close> with \<open>Inl\<close> for the exception.
\<close>

subsection \<open>Strings and thrown values\<close>

text \<open>Decimal rendering of a number inside a template literal.\<close>

function show_nat :: "nat \<Rightarrow> string" where
  "show_nat n = (if n < 10 then [''0123456789'' ! n]
                 else show_nat (n div 10) @ [''0123456789'' ! (n mod 10)])"
  by pat_completeness auto
termination
  by (relation "measure (\<lambda>n. n)") auto

declare show_nat.simps [simp del]

definition show_int :: "int \<Rightarrow> string" where
  "show_int i = (if i < 0 then ''-'' @ show_nat (nat (- i)) else show_nat (nat i))"

text \<open>\<open>String.prototype.includes\<close>\<close>

fun starts_with :: "string \<Rightarrow> string \<Rightarrow> bool" where
  "starts_with s [] = True"
| "starts_with [] (p # ps) = False"
| "starts_with (c # cs) (p # ps) = (c = p \<and> starts_with cs ps)"

fun str_includes :: "string \<Rightarrow> string \<Rightarrow> bool" where
  "str_includes [] p = (p = [])"
| "str_includes (c # cs) p = (starts_with (c # cs) p \<or> str_includes cs p)"

text \<open>
  An optional string under a truthiness test such as \<open>if (excludeId)\<close>: absent and
  empty both count as not given.
\<close>

fun truthy :: "string option \<Rightarrow> string option" where
  "truthy None = None"
| "truthy (Some x) = (if x = [] then None else Some x)"

text \<open>
  A thrown value: an \<open>Error\<close> object with its message, or any other value, of which
  the code only ever reads the \<open>message\<close> property (\<open>None\<close> is \<open>undefined\<close>).
\<close>

datatype thrown = Error string | Other "string option"

text \<open>\<open>error instanceof Error ? error.message : fallback\<close>\<close>

fun message_or :: "string \<Rightarrow> thrown \<Rightarrow> string" where
  "message_or fallback (Error m) = m"
| "message_or fallback (Other p) = fallback"

text \<open>\<open>${lastError?.message}\<close> inside a template literal.\<close>

fun template_message :: "thrown option \<Rightarrow> string" where
  "template_message None = ''undefined''"
| "template_message (Some (Error m)) = m"
| "template_message (Some (Other None)) = ''undefined''"
| "template_message (Some (Other (Some m))) = m"

subsection \<open>Appointments and the table that stores them\<close>

datatype AppointmentStatus =
  scheduled | confirmed | in_progress | completed | cancelled | no_show | rescheduled

text \<open>
  The columns are grouped by the projections the code selects: the RPC returns
  \<open>id, starts_at, ends_at\<close>, the hook selects \<open>id, starts_at, ends_at, doctor_id\<close>, and a
  full row has all columns.
\<close>

record RpcRow =
  id' :: string
  starts_at :: int
  ends_at :: int

record AppointmentSlot = RpcRow +
  doctor_id :: string

record Appointment = AppointmentSlot +
  patient_id :: string
  status :: AppointmentStatus
  notes' :: "string option"
  created_at :: int
  updated_at :: int

record 'r AppointmentOverlapValidation =
  hasOverlap :: bool
  conflictingAppointments :: "'r list"
  message :: "string option"

subsection \<open>The storage backend as the code sees it\<close>

text \<open>
  The backend holds the rows of \<open>public.appointments\<close>. A query either is answered
  from the rows or fails: the client resolves with \<open>{ data: null, error }\<close>, the
  awaited promise rejects with a thrown value, or the client resolves with neither data
  nor error. Which of these happens is the backend's \<open>fault\<close>.
\<close>

datatype fault = PostgrestError string | Rejects thrown | NullData

record Backend =
  appointments :: "Appointment list"
  fault :: "fault option"

datatype 'a PostgrestResponse = Resolved (data: "'a option") (error: "string option")

definition run_select ::
  "Backend \<Rightarrow> (Appointment \<Rightarrow> bool) \<Rightarrow> (Appointment \<Rightarrow> 'c) \<Rightarrow> thrown + 'c list PostgrestResponse" where
  "run_select b flt cols =
     (case fault b of
        None \<Rightarrow> Inr (Resolved (Some (map cols (filter flt (appointments b)))) None)
      | Some (PostgrestError m) \<Rightarrow> Inr (Resolved None (Some m))
      | Some (Rejects t) \<Rightarrow> Inl t
      | Some NullData \<Rightarrow> Inr (Resolved None None))"

subsection \<open>The hook's overlap validation\<close>

text \<open>
  The filter chain of \<open>validateAppointmentOverlap\<close>:
  \<open>.eq('doctor_id', doctorId).neq('status', 'cancelled')
   .or(and(starts_at.lt.endsAt, ends_at.gt.startsAt))\<close>, and \<open>.neq('id', excludeId)\<close>
  when \<open>excludeId\<close> is truthy (given and not the empty string).
\<close>

definition overlap_filter ::
  "int \<Rightarrow> int \<Rightarrow> string \<Rightarrow> string option \<Rightarrow> Appointment \<Rightarrow> bool" where
  "overlap_filter startsAt endsAt doctorId excludeId a =
     (doctor_id a = doctorId \<and> status a \<noteq> cancelled
      \<and> (starts_at a < endsAt \<and> ends_at a > startsAt)
      \<and> (case excludeId of
            None \<Rightarrow> True
          | Some x \<Rightarrow> (if x \<noteq> [] then id' a \<noteq> x else True)))"

text \<open>The body of the \<open>try\<close> block.\<close>

definition validateAppointmentOverlap_try ::
  "Backend \<Rightarrow> int \<Rightarrow> int \<Rightarrow> string \<Rightarrow> string option
   \<Rightarrow> thrown + AppointmentSlot AppointmentOverlapValidation" where
  "validateAppointmentOverlap_try b startsAt endsAt doctorId excludeId =
     (case run_select b (overlap_filter startsAt endsAt doctorId excludeId)
             AppointmentSlot.truncate of
        Inl t \<Rightarrow> Inl t
      | Inr (Resolved overlapping err) \<Rightarrow>
          (case err of
             Some m \<Rightarrow> Inl (Error m)
           | None \<Rightarrow>
               (let n = (case overlapping of None \<Rightarrow> 0 | Some rs \<Rightarrow> length rs);
                    hasOverlap = (n > 0)
                in Inr \<lparr> hasOverlap = hasOverlap,
                         conflictingAppointments =
                           (case overlapping of None \<Rightarrow> [] | Some rs \<Rightarrow> rs),
                         message =
                           (if hasOverlap
                            then Some (''Conflicto de horario detectado. Hay '' @ show_nat n
                                       @ '' cita(s) en ese horario.'')
                            else None) \<rparr>)))"

text \<open>The whole function: whatever the \<open>try\<close> block throws is caught.\<close>

definition validateAppointmentOverlap ::
  "Backend \<Rightarrow> int \<Rightarrow> int \<Rightarrow> string \<Rightarrow> string option
   \<Rightarrow> thrown + AppointmentSlot AppointmentOverlapValidation" where
  "validateAppointmentOverlap b startsAt endsAt doctorId excludeId =
     (case validateAppointmentOverlap_try b startsAt endsAt doctorId excludeId of
        Inr r \<Rightarrow> Inr r
      | Inl err \<Rightarrow>
          Inr \<lparr> hasOverlap = False,
                conflictingAppointments = [],
                message = Some (message_or ''Error validando solapamientos'' err) \<rparr>)"

subsection \<open>The SQL function and the service's overlap check\<close>

text \<open>
  PostgreSQL's range values as the SQL uses them: \<open>tstzrange(lo, hi, '[)')\<close> raises
  when \<open>lo > hi\<close> and is the empty range when \<open>lo = hi\<close>; \<open>&&\<close> holds for two
  non-empty half-open ranges that share an instant and never for an empty one.
\<close>

datatype tstzrange_value = EmptyRange | Range int int

definition tstzrange :: "int \<Rightarrow> int \<Rightarrow> string + tstzrange_value" where
  "tstzrange lo hi =
     (if lo > hi then Inl ''range lower bound must be less than or equal to range upper bound''
      else if lo = hi then Inr EmptyRange
      else Inr (Range lo hi))"

fun range_overlaps :: "tstzrange_value \<Rightarrow> tstzrange_value \<Rightarrow> bool" where
  "range_overlaps (Range a b) (Range c d) = (a < d \<and> c < b)"
| "range_overlaps EmptyRange r = False"
| "range_overlaps r EmptyRange = False"

text \<open>
  The generated column \<open>slot = tstzrange(starts_at, ends_at, '[)')\<close>. A stored row
  satisfies \<open>check (ends_at > starts_at)\<close>, so its slot is a non-empty range.
\<close>

definition slot :: "'a Appointment_scheme \<Rightarrow> tstzrange_value" where
  "slot a = (case tstzrange (starts_at a) (ends_at a) of Inr r \<Rightarrow> r | Inl m \<Rightarrow> EmptyRange)"

text \<open>
  \<open>public.check_appointment_overlap(p_doctor, p_start, p_end)\<close>: the rows of the doctor
  whose slot overlaps the candidate range. It has no condition on \<open>status\<close>.
\<close>

definition check_appointment_overlap ::
  "Appointment list \<Rightarrow> string \<Rightarrow> int \<Rightarrow> int \<Rightarrow> string + RpcRow list" where
  "check_appointment_overlap rows p_doctor p_start p_end =
     (case tstzrange p_start p_end of
        Inl m \<Rightarrow> Inl m
      | Inr r \<Rightarrow>
          Inr (map RpcRow.truncate
                 (filter (\<lambda>a. doctor_id a = p_doctor \<and> range_overlaps r (slot a)) rows)))"

text \<open>How the client answers a request whose evaluation on the rows gave \<open>r\<close>.\<close>

definition answer :: "Backend \<Rightarrow> string + 'a \<Rightarrow> thrown + 'a PostgrestResponse" where
  "answer b r =
     (case fault b of
        None \<Rightarrow> (case r of
                   Inr x \<Rightarrow> Inr (Resolved (Some x) None)
                 | Inl m \<Rightarrow> Inr (Resolved None (Some m)))
      | Some (PostgrestError m) \<Rightarrow> Inr (Resolved None (Some m))
      | Some (Rejects t) \<Rightarrow> Inl t
      | Some NullData \<Rightarrow> Inr (Resolved None None))"

text \<open>\<open>AppointmentsService.checkOverlap\<close>\<close>

definition checkOverlap ::
  "Backend \<Rightarrow> string \<Rightarrow> int \<Rightarrow> int \<Rightarrow> string option
   \<Rightarrow> thrown + RpcRow AppointmentOverlapValidation" where
  "checkOverlap b doctorId startsAt endsAt excludeId =
     (case answer b (check_appointment_overlap (appointments b) doctorId startsAt endsAt) of
        Inl t \<Rightarrow> Inl t
      | Inr (Resolved dat err) \<Rightarrow>
          (case err of
             Some m \<Rightarrow> Inl (Error (''Error verificando solapamiento: '' @ m))
           | None \<Rightarrow>
               (let rows = (case dat of None \<Rightarrow> [] | Some rs \<Rightarrow> rs);
                    conflicts = (case truthy excludeId of
                                   Some x \<Rightarrow> filter (\<lambda>apt. id' apt \<noteq> x) rows
                                 | None \<Rightarrow> rows)
                in Inr \<lparr> hasOverlap = (length conflicts > 0),
                         conflictingAppointments = conflicts,
                         message =
                           (if length conflicts > 0
                            then Some (''Conflicto detectado: '' @ show_nat (length conflicts)
                                       @ '' cita(s) en ese horario'')
                            else None) \<rparr>)))"

subsection \<open>Writes to the appointments table\<close>

text \<open>
  The table's constraints as \<open>001_appointments.sql\<close> declares them: the primary key,
  \<open>check (ends_at > starts_at)\<close> and the exclusion constraint
  \<open>no_overlap_per_doctor\<close> over \<open>(doctor_id, slot)\<close>. Row-level security is not
  modelled: the caller is allowed every statement.
\<close>

definition insert_row :: "Appointment list \<Rightarrow> Appointment \<Rightarrow> string + Appointment list" where
  "insert_row rows a =
     (if \<exists>b \<in> set rows. id' b = id' a
      then Inl ''duplicate key value violates unique constraint appointments_pkey''
      else if \<not> ends_at a > starts_at a
      then Inl ''new row violates check constraint appointments_check''
      else if \<exists>b \<in> set rows. doctor_id b = doctor_id a \<and> range_overlaps (slot a) (slot b)
      then Inl ''conflicting key value violates exclusion constraint no_overlap_per_doctor''
      else Inr (rows @ [a]))"

text \<open>
  \<open>.update(patch).eq('id', i).select().single()\<close>: the rows with id \<open>i\<close> are changed
  by \<open>f\<close>; \<open>single()\<close> answers with the one changed row and with an error when no row
  has that id.
\<close>

definition update_single ::
  "Appointment list \<Rightarrow> string \<Rightarrow> (Appointment \<Rightarrow> Appointment)
   \<Rightarrow> string + Appointment \<times> Appointment list" where
  "update_single rows i f =
     (let rows' = map (\<lambda>a. if id' a = i then f a else a) rows;
          hit = filter (\<lambda>a. id' a = i) rows'
      in if \<exists>a \<in> set hit. \<not> ends_at a > starts_at a
         then Inl ''new row violates check constraint appointments_check''
         else if \<exists>a \<in> set hit. \<exists>b \<in> set rows'.
                   id' b \<noteq> i \<and> doctor_id b = doctor_id a \<and> range_overlaps (slot a) (slot b)
         then Inl ''conflicting key value violates exclusion constraint no_overlap_per_doctor''
         else (case hit of
                 [a] \<Rightarrow> Inr (a, rows')
               | _ \<Rightarrow> Inl ''JSON object requested, multiple (or no) rows returned''))"

text \<open>\<open>.delete().eq('id', i)\<close>\<close>

definition delete_rows :: "Appointment list \<Rightarrow> string \<Rightarrow> unit \<times> Appointment list" where
  "delete_rows rows i = ((), filter (\<lambda>a. id' a \<noteq> i) rows)"

text \<open>
  A statement that evaluates to \<open>w\<close> on the rows: the client's answer and the backend
  afterwards. A backend with a fault answers with the fault and keeps its rows.
\<close>

definition commit ::
  "Backend \<Rightarrow> string + 'a \<times> Appointment list \<Rightarrow> (thrown + 'a PostgrestResponse) \<times> Backend" where
  "commit b w =
     (answer b (map_sum (\<lambda>m. m) fst w),
      (case fault b of
         None \<Rightarrow> (case w of Inr (x, rows') \<Rightarrow> b\<lparr> appointments := rows' \<rparr> | Inl m \<Rightarrow> b)
       | Some f \<Rightarrow> b))"

record CreateAppointmentInput =
  new_patient_id :: string
  new_doctor_id :: string
  new_starts_at :: int
  new_ends_at :: int
  new_status :: "AppointmentStatus option"
  new_notes :: "string option"

record UpdateAppointmentInput =
  set_starts_at :: "int option"
  set_ends_at :: "int option"
  set_status :: "AppointmentStatus option"
  set_notes :: "string option"

text \<open>
  The row an insert stores: \<open>uuid\<close> is what \<open>gen_random_uuid()\<close> gives and \<open>now\<close> what
  \<open>now()\<close> gives for the columns with defaults.
\<close>

definition new_row ::
  "CreateAppointmentInput \<Rightarrow> AppointmentStatus \<Rightarrow> string \<Rightarrow> int \<Rightarrow> Appointment" where
  "new_row input st uuid now =
     \<lparr> id' = uuid, starts_at = new_starts_at input, ends_at = new_ends_at input,
       doctor_id = new_doctor_id input, patient_id = new_patient_id input, status = st,
       notes' = new_notes input, created_at = now, updated_at = now \<rparr>"

text \<open>
  The row after an update with \<open>patch\<close>: a key that is absent (\<open>undefined\<close>) leaves its
  column as it is, and the trigger \<open>set_updated_at\<close> stamps \<open>updated_at\<close>.
\<close>

definition apply_patch :: "UpdateAppointmentInput \<Rightarrow> int \<Rightarrow> Appointment \<Rightarrow> Appointment" where
  "apply_patch patch now a =
     a\<lparr> starts_at := (case set_starts_at patch of Some v \<Rightarrow> v | None \<Rightarrow> starts_at a),
        ends_at := (case set_ends_at patch of Some v \<Rightarrow> v | None \<Rightarrow> ends_at a),
        status := (case set_status patch of Some v \<Rightarrow> v | None \<Rightarrow> status a),
        notes' := (case set_notes patch of Some v \<Rightarrow> Some v | None \<Rightarrow> notes' a),
        updated_at := now \<rparr>"

text \<open>\<open>if (error) throw new Error(prefix + error.message)\<close>, then the data.\<close>

definition unwrap :: "string \<Rightarrow> thrown + 'a PostgrestResponse \<Rightarrow> thrown + 'a option" where
  "unwrap prefix r =
     (case r of
        Inl t \<Rightarrow> Inl t
      | Inr (Resolved dat err) \<Rightarrow>
          (case err of Some m \<Rightarrow> Inl (Error (prefix @ m)) | None \<Rightarrow> Inr dat))"

text \<open>\<open>catch (err) { throw new Error(err instanceof Error ? err.message : fallback) }\<close>\<close>

definition rethrow :: "string \<Rightarrow> thrown + 'a \<Rightarrow> thrown + 'a" where
  "rethrow fallback r =
     (case r of Inl err \<Rightarrow> Inl (Error (message_or fallback err)) | Inr v \<Rightarrow> Inr v)"

text \<open>\<open>overlap.message || fallback\<close>\<close>

fun or_else :: "string option \<Rightarrow> string \<Rightarrow> string" where
  "or_else None fallback = fallback"
| "or_else (Some m) fallback = (if m = [] then fallback else m)"

subsection \<open>The hook's operations\<close>

text \<open>
  Each operation returns what the caller gets and the backend afterwards. The list
  refresh \<open>fetchAppointments\<close> that follows a write only reads and catches its own
  errors, so it is left out.
\<close>

definition createAppointment ::
  "Backend \<Rightarrow> CreateAppointmentInput \<Rightarrow> string \<Rightarrow> int \<Rightarrow> (thrown + Appointment option) \<times> Backend" where
  "createAppointment b input uuid now =
     (case validateAppointmentOverlap b (new_starts_at input) (new_ends_at input)
             (new_doctor_id input) None of
        Inl t \<Rightarrow> (rethrow ''Error al crear la cita'' (Inl t), b)
      | Inr overlap \<Rightarrow>
          if hasOverlap overlap
          then (Inl (Error (or_else (message overlap)
                              ''Hay conflictos de horario con otras citas'')), b)
          else (let row = new_row input
                            (case new_status input of Some st \<Rightarrow> st | None \<Rightarrow> scheduled)
                            uuid now;
                    (r, b') = commit b (map_sum (\<lambda>m. m) (\<lambda>rows'. (row, rows'))
                                          (insert_row (appointments b) row))
                in (rethrow ''Error al crear la cita'' (unwrap [] r), b')))"

text \<open>
  \<open>cache\<close> is the hook's state \<open>appointments\<close>, the list it fetched last, in which the
  appointment to edit is looked up.
\<close>

definition updateAppointment_hook ::
  "Backend \<Rightarrow> Appointment list \<Rightarrow> string \<Rightarrow> UpdateAppointmentInput \<Rightarrow> int
   \<Rightarrow> (thrown + Appointment option) \<times> Backend" where
  "updateAppointment_hook b cache i input now =
     (let checked =
            (if set_starts_at input \<noteq> None \<or> set_ends_at input \<noteq> None
             then (case find (\<lambda>a. id' a = i) cache of
                     None \<Rightarrow> Inl (Error ''Cita no encontrada'')
                   | Some appointment \<Rightarrow>
                       (case validateAppointmentOverlap b
                               (case set_starts_at input of Some v \<Rightarrow> v
                                | None \<Rightarrow> starts_at appointment)
                               (case set_ends_at input of Some v \<Rightarrow> v
                                | None \<Rightarrow> ends_at appointment)
                               (doctor_id appointment) (Some i) of
                          Inl t \<Rightarrow> Inl t
                        | Inr overlap \<Rightarrow>
                            if hasOverlap overlap
                            then Inl (Error (or_else (message overlap)
                                               ''Hay conflictos de horario con otras citas''))
                            else Inr ()))
             else Inr ())
      in case checked of
           Inl t \<Rightarrow> (rethrow ''Error al actualizar la cita'' (Inl t), b)
         | Inr u \<Rightarrow>
             (let (r, b') = commit b (update_single (appointments b) i (apply_patch input now))
              in (rethrow ''Error al actualizar la cita'' (unwrap [] r), b')))"

definition deleteAppointment :: "Backend \<Rightarrow> string \<Rightarrow> (thrown + unit) \<times> Backend" where
  "deleteAppointment b i =
     (let (r, b') = commit b (Inr (delete_rows (appointments b) i))
      in (rethrow ''Error al eliminar la cita'' (map_sum (\<lambda>t. t) (\<lambda>d. ()) (unwrap [] r)), b'))"

subsection \<open>The service's operations\<close>

text \<open>
  \<open>public.create_appointment_safe\<close>: raises \<open>OVERLAP\<close> when a row of the doctor,
  whatever its status, overlaps the range; otherwise inserts and returns the new id.
\<close>

definition create_appointment_safe ::
  "Appointment list \<Rightarrow> CreateAppointmentInput \<Rightarrow> AppointmentStatus option \<Rightarrow> string \<Rightarrow> int
   \<Rightarrow> string + string \<times> Appointment list" where
  "create_appointment_safe rows input p_status uuid now =
     (case tstzrange (new_starts_at input) (new_ends_at input) of
        Inl m \<Rightarrow> Inl m
      | Inr r \<Rightarrow>
          if \<exists>a \<in> set rows. doctor_id a = new_doctor_id input \<and> range_overlaps r (slot a)
          then Inl ''OVERLAP''
          else map_sum (\<lambda>m. m) (\<lambda>rows'. (uuid, rows'))
                 (insert_row rows
                    (new_row input (case p_status of Some st \<Rightarrow> st | None \<Rightarrow> scheduled)
                       uuid now)))"

definition createAppointmentSafe ::
  "Backend \<Rightarrow> CreateAppointmentInput \<Rightarrow> string \<Rightarrow> int \<Rightarrow> (thrown + string option) \<times> Backend" where
  "createAppointmentSafe b input uuid now =
     (let (r, b') = commit b (create_appointment_safe (appointments b) input
                               (Some (case new_status input of Some st \<Rightarrow> st
                                      | None \<Rightarrow> scheduled))
                               uuid now)
      in (case r of
            Inl t \<Rightarrow> Inl t
          | Inr (Resolved dat err) \<Rightarrow>
              (case err of
                 Some m \<Rightarrow>
                   if str_includes m ''OVERLAP''
                   then Inl (Error (''Conflicto de horario: el m'' @ [CHR 0xC3, CHR 0xA9]
                                    @ ''dico ya tiene una cita en ese horario''))
                   else Inl (Error (''Error creando cita: '' @ m))
               | None \<Rightarrow> Inr dat),
          b'))"

text \<open>
  \<open>AppointmentsService.updateAppointment\<close>. When the patch changes a time, the current
  row is read and the new range is checked with \<open>checkOverlap\<close>, the row itself
  excluded.
\<close>

definition updateAppointment ::
  "Backend \<Rightarrow> string \<Rightarrow> UpdateAppointmentInput \<Rightarrow> int \<Rightarrow> (thrown + Appointment option) \<times> Backend" where
  "updateAppointment b i patch now =
     (let checked =
            (if set_starts_at patch \<noteq> None \<or> set_ends_at patch \<noteq> None
             then (case unwrap ''Error obteniendo cita: ''
                          (answer b (case filter (\<lambda>a. id' a = i) (appointments b) of
                                       [a] \<Rightarrow> Inr a
                                     | _ \<Rightarrow> Inl ''JSON object requested, multiple (or no) rows returned'')) of
                     Inl t \<Rightarrow> Inl t
                   | Inr None \<Rightarrow> Inl (Error ''Cannot read properties of null'')
                   | Inr (Some current) \<Rightarrow>
                       (case checkOverlap b (doctor_id current)
                               (case set_starts_at patch of Some v \<Rightarrow> v
                                | None \<Rightarrow> starts_at current)
                               (case set_ends_at patch of Some v \<Rightarrow> v
                                | None \<Rightarrow> ends_at current)
                               (Some i) of
                          Inl t \<Rightarrow> Inl t
                        | Inr overlap \<Rightarrow>
                            if hasOverlap overlap
                            then Inl (Error (or_else (message overlap)
                                               ''Conflicto de horario detectado''))
                            else Inr ()))
             else Inr ())
      in case checked of
           Inl t \<Rightarrow> (Inl t, b)
         | Inr u \<Rightarrow>
             (let (r, b') = commit b (update_single (appointments b) i (apply_patch patch now))
              in (unwrap ''Error actualizando cita: '' r, b')))"

text \<open>The status changes: each is one update of the row with the given id.\<close>

definition cancelAppointment ::
  "Backend \<Rightarrow> string \<Rightarrow> string option \<Rightarrow> int \<Rightarrow> (thrown + Appointment option) \<times> Backend" where
  "cancelAppointment b i reason now =
     (let notes = (case truthy reason of
                     Some r \<Rightarrow> Some (''Cancelada: '' @ r)
                   | None \<Rightarrow> None);
          (r, b') = commit b (update_single (appointments b) i
                      (apply_patch \<lparr> set_starts_at = None, set_ends_at = None,
                                     set_status = Some cancelled, set_notes = notes \<rparr> now))
      in (unwrap ''Error cancelando cita: '' r, b'))"

definition confirmAppointment ::
  "Backend \<Rightarrow> string \<Rightarrow> int \<Rightarrow> (thrown + Appointment option) \<times> Backend" where
  "confirmAppointment b i now =
     (let (r, b') = commit b (update_single (appointments b) i
                      (apply_patch \<lparr> set_starts_at = None, set_ends_at = None,
                                     set_status = Some confirmed, set_notes = None \<rparr> now))
      in (unwrap ''Error confirmando cita: '' r, b'))"

definition completeAppointment ::
  "Backend \<Rightarrow> string \<Rightarrow> string option \<Rightarrow> int \<Rightarrow> (thrown + Appointment option) \<times> Backend" where
  "completeAppointment b i notes now =
     (let (r, b') = commit b (update_single (appointments b) i
                      (apply_patch \<lparr> set_starts_at = None, set_ends_at = None,
                                     set_status = Some completed, set_notes = notes \<rparr> now))
      in (unwrap ''Error completando cita: '' r, b'))"

definition markNoShow ::
  "Backend \<Rightarrow> string \<Rightarrow> int \<Rightarrow> (thrown + Appointment option) \<times> Backend" where
  "markNoShow b i now =
     (let (r, b') = commit b (update_single (appointments b) i
                      (apply_patch \<lparr> set_starts_at = None, set_ends_at = None,
                                     set_status = Some no_show, set_notes = None \<rparr> now))
      in (unwrap ''Error marcando no-show: '' r, b'))"

definition rescheduleAppointment ::
  "Backend \<Rightarrow> string \<Rightarrow> int \<Rightarrow> int \<Rightarrow> int \<Rightarrow> (thrown + Appointment option) \<times> Backend" where
  "rescheduleAppointment b i newStartsAt newEndsAt now =
     updateAppointment b i
       \<lparr> set_starts_at = Some newStartsAt, set_ends_at = Some newEndsAt,
         set_status = Some rescheduled, set_notes = None \<rparr> now"

subsection \<open>Sequences of operations\<close>

datatype operation =
    HookCreate CreateAppointmentInput string
  | HookUpdate "Appointment list" string UpdateAppointmentInput
  | HookDelete string
  | CreateSafe CreateAppointmentInput string
  | Update string UpdateAppointmentInput
  | Cancel string "string option"
  | Confirm string
  | Complete string "string option"
  | MarkNoShow string
  | Reschedule string int int

text \<open>The backend after an operation run at time \<open>now\<close>, whether or not it threw.\<close>

fun perform :: "Backend \<Rightarrow> int \<Rightarrow> operation \<Rightarrow> Backend" where
  "perform b now (HookCreate input uuid) = snd (createAppointment b input uuid now)"
| "perform b now (HookUpdate cache i input) = snd (updateAppointment_hook b cache i input now)"
| "perform b now (HookDelete i) = snd (deleteAppointment b i)"
| "perform b now (CreateSafe input uuid) = snd (createAppointmentSafe b input uuid now)"
| "perform b now (Update i patch) = snd (updateAppointment b i patch now)"
| "perform b now (Cancel i reason) = snd (cancelAppointment b i reason now)"
| "perform b now (Confirm i) = snd (confirmAppointment b i now)"
| "perform b now (Complete i notes) = snd (completeAppointment b i notes now)"
| "perform b now (MarkNoShow i) = snd (markNoShow b i now)"
| "perform b now (Reschedule i s e) = snd (rescheduleAppointment b i s e now)"

fun removes :: "operation \<Rightarrow> bool" where
  "removes (HookDelete i) = True"
| "removes other = False"

text \<open>
  A run: each step gives the fault the backend has while the operation runs, the time,
  and the operation.
\<close>

fun run :: "Backend \<Rightarrow> (fault option \<times> int \<times> operation) list \<Rightarrow> Backend" where
  "run b [] = b"
| "run b ((f, now, oper) # steps) = run (perform (b\<lparr> fault := f \<rparr>) now oper) steps"

text \<open>Every appointment id stored in \<open>b\<close> is still stored in \<open>b'\<close>.\<close>

definition keeps :: "Backend \<Rightarrow> Backend \<Rightarrow> bool" where
  "keeps b b' \<longleftrightarrow> id' ` set (appointments b) \<subseteq> id' ` set (appointments b')"

subsection \<open>Dates as the runtime shows them\<close>

text \<open>
  A \<open>Date\<close> is its time value, milliseconds since the epoch; invalid dates are not
  modelled. The getters read the date on the wall clock of the runtime's local zone.
  That zone comes from the platform and its time-zone data, not from the repository, and
  it need not have a fixed offset: \<open>zone\<close> gives the wall-clock second, counted from
  1970-01-01 00:00:00, that the zone shows at an epoch second. The calendar arithmetic
  is the proleptic Gregorian one.
\<close>

definition local_seconds :: "(int \<Rightarrow> int) \<Rightarrow> int \<Rightarrow> int" where
  "local_seconds zone d = zone (d div 1000)"

definition getSeconds :: "(int \<Rightarrow> int) \<Rightarrow> int \<Rightarrow> int" where
  "getSeconds zone d = local_seconds zone d mod 60"

definition getMinutes :: "(int \<Rightarrow> int) \<Rightarrow> int \<Rightarrow> int" where
  "getMinutes zone d = (local_seconds zone d div 60) mod 60"

definition getHours :: "(int \<Rightarrow> int) \<Rightarrow> int \<Rightarrow> int" where
  "getHours zone d = (local_seconds zone d div 3600) mod 24"

text \<open>Day of the week, 0 for Sunday; the epoch was a Thursday.\<close>

definition getDay :: "(int \<Rightarrow> int) \<Rightarrow> int \<Rightarrow> int" where
  "getDay zone d = (local_seconds zone d div 86400 + 4) mod 7"

text \<open>Year, month (1 to 12) and day of the month of a day number counted from the epoch.\<close>

definition civil_from_days :: "int \<Rightarrow> int \<times> int \<times> int" where
  "civil_from_days z0 =
     (let z = z0 + 719468;
          era = z div 146097;
          doe = z mod 146097;
          yoe = (doe - doe div 1460 + doe div 36524 - doe div 146096) div 365;
          doy = doe - (365 * yoe + yoe div 4 - yoe div 100);
          mp = (5 * doy + 2) div 153;
          dd = doy - (153 * mp + 2) div 5 + 1;
          mm = (if mp < 10 then mp + 3 else mp - 9);
          yy = yoe + era * 400 + (if mm \<le> 2 then 1 else 0)
      in (yy, mm, dd))"

definition getFullYear :: "(int \<Rightarrow> int) \<Rightarrow> int \<Rightarrow> int" where
  "getFullYear zone d = fst (civil_from_days (local_seconds zone d div 86400))"

definition getMonth :: "(int \<Rightarrow> int) \<Rightarrow> int \<Rightarrow> int" where
  "getMonth zone d = fst (snd (civil_from_days (local_seconds zone d div 86400))) - 1"

definition getDate :: "(int \<Rightarrow> int) \<Rightarrow> int \<Rightarrow> int" where
  "getDate zone d = snd (snd (civil_from_days (local_seconds zone d div 86400)))"

text \<open>
  What the time policy takes from the platform:
  \<^item> \<open>buenos_aires\<close>, the wall-clock second that the zone
    \<open>America/Argentina/Buenos_Aires\<close> of the platform's time-zone data shows at an epoch
    second. Its offset from UTC is a matter of that data and has changed over the
    years: it was UTC-02:00 in the summers of 2007/08 and 2008/09;
  \<^item> \<open>local_zone\<close>, the same for the runtime's local zone, which the getters read;
  \<^item> \<open>local_time\<close>, the epoch second that \<open>new Date(string)\<close> gives to a wall-clock
    second read in the runtime's local zone. Where the local zone skips wall-clock
    times (the gap of a change to summer time) or shows them twice, the platform picks
    an instant, and reading the date back need not give the wall clock that was parsed.
\<close>

record Platform =
  buenos_aires :: "int \<Rightarrow> int"
  local_zone :: "int \<Rightarrow> int"
  local_time :: "int \<Rightarrow> int"

text \<open>
  \<open>d.toLocaleString("en-US", { timeZone: ARGENTINA_TIMEZONE })\<close> prints the wall clock
  of Buenos Aires down to the second, \<open>M/D/YYYY, h:mm:ss AM\<close>: the milliseconds of \<open>d\<close>
  are not printed. The string is represented by the wall-clock second it names.
  \<open>new Date(string)\<close> reads such a string as a wall clock of the runtime's local zone;
  the date it gives has no milliseconds.
\<close>

definition toLocaleString_Argentina :: "Platform \<Rightarrow> int \<Rightarrow> int" where
  "toLocaleString_Argentina P d = buenos_aires P (d div 1000)"

definition Date_of_local_string :: "Platform \<Rightarrow> int \<Rightarrow> int" where
  "Date_of_local_string P wall = local_time P wall * 1000"

subsection \<open>Time policy\<close>

definition toArgentinaTimezone :: "Platform \<Rightarrow> int \<Rightarrow> int" where
  "toArgentinaTimezone P d = Date_of_local_string P (toLocaleString_Argentina P d)"

text \<open>\<open>nowInArgentina()\<close>, with the clock's reading \<open>now\<close> for \<open>new Date()\<close>.\<close>

definition nowInArgentina :: "Platform \<Rightarrow> int \<Rightarrow> int" where
  "nowInArgentina P now = Date_of_local_string P (toLocaleString_Argentina P now)"

definition isFutureInArgentina :: "Platform \<Rightarrow> int \<Rightarrow> int \<Rightarrow> bool" where
  "isFutureInArgentina P now d \<longleftrightarrow> toArgentinaTimezone P d > nowInArgentina P now"

definition isValidMedicalHour :: "Platform \<Rightarrow> int \<Rightarrow> bool" where
  "isValidMedicalHour P date =
     (let d = toArgentinaTimezone P date;
          hour = getHours (local_zone P) d
      in hour \<ge> 8 \<and> hour < 20)"

definition isWeekday :: "Platform \<Rightarrow> int \<Rightarrow> bool" where
  "isWeekday P date =
     (let d = toArgentinaTimezone P date;
          day = getDay (local_zone P) d
      in day \<ge> 1 \<and> day \<le> 5)"

text \<open>
  What the specification speaks of: the hour of the day and the day of the week (0 for
  Sunday) on the wall clock of Buenos Aires at the instant \<open>t\<close>, and a timestamp that is
  strictly after the current time.
\<close>

definition spec_argentina_hour :: "Platform \<Rightarrow> int \<Rightarrow> int" where
  "spec_argentina_hour P t = (buenos_aires P (t div 1000) div 3600) mod 24"

definition spec_argentina_weekday :: "Platform \<Rightarrow> int \<Rightarrow> int" where
  "spec_argentina_weekday P t = (buenos_aires P (t div 1000) div 86400 + 4) mod 7"

definition spec_isFuture :: "int \<Rightarrow> int \<Rightarrow> bool" where
  "spec_isFuture now t \<longleftrightarrow> t > now"

text \<open>
  The runtime reads a wall clock back as it parsed it: the getters of
  \<open>new Date(string)\<close> show the wall clock that the string names.
\<close>

definition reads_back :: "Platform \<Rightarrow> int \<Rightarrow> bool" where
  "reads_back P wall \<longleftrightarrow> local_zone P (local_time P wall) = wall"

subsection \<open>The calendar generator\<close>

text \<open>
  What the generator takes from the runtime: the local zone for the date getters (the
  wall-clock second it shows at an epoch second), the clock's reading for \<open>new Date()\<close> and \<open>Date.now()\<close>, and the digits
  \<open>Math.random().toString(36).substring(2, 15)\<close> gives.
\<close>

record Runtime =
  tz :: "int \<Rightarrow> int"
  clock :: int
  random36 :: string

datatype ICSStatus = TENTATIVE | CONFIRMED | CANCELLED

fun show_ICSStatus :: "ICSStatus \<Rightarrow> string" where
  "show_ICSStatus TENTATIVE = ''TENTATIVE''"
| "show_ICSStatus CONFIRMED = ''CONFIRMED''"
| "show_ICSStatus CANCELLED = ''CANCELLED''"

record Contact =
  name :: string
  email :: string

record ICSEventData =
  title :: string
  description :: "string option"
  location :: "string option"
  startDate :: int
  endDate :: int
  organizer :: "Contact option"
  attendee :: "Contact option"
  uid :: "string option"
  sequence :: "int option"
  ics_status :: "ICSStatus option"
  reminder :: "int option"

text \<open>The letter e with an acute accent, in UTF-8.\<close>

definition e_acute :: string where
  "e_acute = [CHR 0xC3, CHR 0xA9]"

definition CRLF :: string where
  "CRLF = [CHR 0x0D, CHR 0x0A]"

text \<open>\<open>lines.join(sep)\<close>\<close>

fun join :: "string \<Rightarrow> string list \<Rightarrow> string" where
  "join sep [] = []"
| "join sep [l] = l"
| "join sep (l # ls) = l @ sep @ join sep ls"

text \<open>\<open>text.replace(/c/g, r)\<close> for a single character \<open>c\<close>\<close>

definition replace_all :: "char \<Rightarrow> string \<Rightarrow> string \<Rightarrow> string" where
  "replace_all c r s = concat (map (\<lambda>x. if x = c then r else [x]) s)"

definition escapeText :: "string \<Rightarrow> string" where
  "escapeText text =
     replace_all (CHR 0x0D) []
       (replace_all (CHR 0x0A) [CHR 0x5C, CHR ''n'']
          (replace_all (CHR '','') [CHR 0x5C, CHR '','']
             (replace_all (CHR '';'') [CHR 0x5C, CHR '';'']
                (replace_all (CHR 0x5C) [CHR 0x5C, CHR 0x5C] text))))"

text \<open>\<open>String(n).padStart(2, '0')\<close>\<close>

definition pad2 :: "int \<Rightarrow> string" where
  "pad2 n = (let s = show_int n in replicate (2 - length s) (CHR ''0'') @ s)"

definition formatDate :: "Runtime \<Rightarrow> int \<Rightarrow> string" where
  "formatDate rt date =
     (let year = getFullYear (tz rt) date;
          month = pad2 (getMonth (tz rt) date + 1);
          day = pad2 (getDate (tz rt) date);
          hours = pad2 (getHours (tz rt) date);
          minutes = pad2 (getMinutes (tz rt) date);
          seconds = pad2 (getSeconds (tz rt) date)
      in show_int year @ month @ day @ ''T'' @ hours @ minutes @ seconds)"

definition generateUID :: "Runtime \<Rightarrow> string" where
  "generateUID rt = show_int (clock rt) @ ''-'' @ random36 rt @ ''@autamedica.com''"

text \<open>The array \<open>lines\<close> that \<open>generateICS\<close> builds, and the text it returns.\<close>

definition generateICS_lines :: "Runtime \<Rightarrow> ICSEventData \<Rightarrow> string list" where
  "generateICS_lines rt event =
     [''BEGIN:VCALENDAR'',
      ''VERSION:2.0'',
      ''PRODID:-//AutaMedica//Medical Appointments//ES'',
      ''METHOD:REQUEST'',
      ''CALSCALE:GREGORIAN'',
      [],
      ''BEGIN:VTIMEZONE'',
      ''TZID:America/Argentina/Buenos_Aires'',
      ''X-LIC-LOCATION:America/Argentina/Buenos_Aires'',
      ''BEGIN:STANDARD'',
      ''TZOFFSETFROM:-0300'',
      ''TZOFFSETTO:-0300'',
      ''TZNAME:ART'',
      ''DTSTART:19700101T000000'',
      ''END:STANDARD'',
      ''END:VTIMEZONE'',
      [],
      ''BEGIN:VEVENT'',
      ''UID:'' @ (case truthy (uid event) of Some u \<Rightarrow> u | None \<Rightarrow> generateUID rt),
      ''DTSTAMP:'' @ formatDate rt (clock rt),
      ''DTSTART;TZID=America/Argentina/Buenos_Aires:'' @ formatDate rt (startDate event),
      ''DTEND;TZID=America/Argentina/Buenos_Aires:'' @ formatDate rt (endDate event),
      ''SUMMARY:'' @ escapeText (title event)]
     @ (case truthy (description event) of
          Some d \<Rightarrow> [''DESCRIPTION:'' @ escapeText d]
        | None \<Rightarrow> [])
     @ (case truthy (location event) of
          Some l \<Rightarrow> [''LOCATION:'' @ escapeText l]
        | None \<Rightarrow> [])
     @ (case organizer event of
          Some p \<Rightarrow> [''ORGANIZER;CN='' @ escapeText (name p) @ '':mailto:'' @ email p]
        | None \<Rightarrow> [])
     @ (case attendee event of
          Some p \<Rightarrow> [''ATTENDEE;CN='' @ escapeText (name p) @ '';RSVP=TRUE:mailto:'' @ email p]
        | None \<Rightarrow> [])
     @ (case ics_status event of
          Some s \<Rightarrow> [''STATUS:'' @ show_ICSStatus s]
        | None \<Rightarrow> [])
     @ (case sequence event of
          Some n \<Rightarrow> [''SEQUENCE:'' @ show_int n]
        | None \<Rightarrow> [])
     @ (case reminder event of
          Some m \<Rightarrow>
            if m \<noteq> 0
            then [''BEGIN:VALARM'',
                  ''TRIGGER:-PT'' @ show_int m @ ''M'',
                  ''ACTION:DISPLAY'',
                  ''DESCRIPTION:Recordatorio: '' @ escapeText (title event),
                  ''END:VALARM'']
            else []
        | None \<Rightarrow> [])
     @ [''END:VEVENT'',
        ''END:VCALENDAR'']"

definition generateICS :: "Runtime \<Rightarrow> ICSEventData \<Rightarrow> string" where
  "generateICS rt event = join CRLF (generateICS_lines rt event)"

text \<open>The event data for an appointment and for its cancellation.\<close>

definition appointment_event ::
  "Appointment \<Rightarrow> string \<Rightarrow> string \<Rightarrow> string option \<Rightarrow> string option \<Rightarrow> ICSEventData" where
  "appointment_event appointment doctorName patientName doctorEmail patientEmail =
     \<lparr> title = ''Cita m'' @ e_acute @ ''dica con '' @ doctorName,
       description =
         Some (case truthy (notes' appointment) of
                 Some n \<Rightarrow> n
               | None \<Rightarrow> ''Cita m'' @ e_acute @ ''dica programada''),
       location = Some (''Consultorio m'' @ e_acute @ ''dico - AutaMedica''),
       startDate = starts_at appointment,
       endDate = ends_at appointment,
       organizer = (case truthy doctorEmail of
                      Some e \<Rightarrow> Some \<lparr> name = doctorName, email = e \<rparr>
                    | None \<Rightarrow> None),
       attendee = (case truthy patientEmail of
                     Some e \<Rightarrow> Some \<lparr> name = patientName, email = e \<rparr>
                   | None \<Rightarrow> None),
       uid = Some (id' appointment @ ''@autamedica.com''),
       sequence = Some 0,
       ics_status = Some (if status appointment = confirmed then CONFIRMED else TENTATIVE),
       reminder = Some 120 \<rparr>"

definition generateAppointmentICS ::
  "Runtime \<Rightarrow> Appointment \<Rightarrow> string \<Rightarrow> string \<Rightarrow> string option \<Rightarrow> string option \<Rightarrow> string" where
  "generateAppointmentICS rt appointment doctorName patientName doctorEmail patientEmail =
     generateICS rt
       (appointment_event appointment doctorName patientName doctorEmail patientEmail)"

definition cancellation_event ::
  "Appointment \<Rightarrow> string \<Rightarrow> string \<Rightarrow> string option \<Rightarrow> ICSEventData" where
  "cancellation_event appointment doctorName patientName reason =
     \<lparr> title = ''CANCELADA: Cita m'' @ e_acute @ ''dica con '' @ doctorName,
       description =
         Some (case truthy reason of
                 Some r \<Rightarrow> ''Esta cita ha sido cancelada. Motivo: '' @ r
               | None \<Rightarrow> ''Esta cita ha sido cancelada.''),
       location = Some (''Consultorio m'' @ e_acute @ ''dico - AutaMedica''),
       startDate = starts_at appointment,
       endDate = ends_at appointment,
       organizer = None,
       attendee = None,
       uid = Some (id' appointment @ ''@autamedica.com''),
       sequence = Some 1,
       ics_status = Some CANCELLED,
       reminder = None \<rparr>"

definition generateCancellationICS ::
  "Runtime \<Rightarrow> Appointment \<Rightarrow> string \<Rightarrow> string \<Rightarrow> string option \<Rightarrow> string" where
  "generateCancellationICS rt appointment doctorName patientName reason =
     generateICS rt (cancellation_event appointment doctorName patientName reason)"

text \<open>
  Reading an artifact back: its lines, and the values of the lines that begin with a
  property name and a colon.
\<close>

fun split_lines :: "string \<Rightarrow> string \<Rightarrow> string list" where
  "split_lines acc [] = [rev acc]"
| "split_lines acc [c] = [rev (c # acc)]"
| "split_lines acc (c # d # cs) =
     (if c = CHR 0x0D \<and> d = CHR 0x0A then rev acc # split_lines [] cs
      else split_lines (c # acc) (d # cs))"

definition property_values :: "string \<Rightarrow> string \<Rightarrow> string list" where
  "property_values key artifact =
     map (drop (length key + 1))
       (filter (\<lambda>l. starts_with l (key @ '':'')) (split_lines [] artifact))"

subsection \<open>The e-mail service\<close>

record EmailAttachment =
  filename :: string
  content :: string
  contentType :: string
  encoding :: string

text \<open>
  A message as the service hands it to the provider. An address is always given as
  \<open>{ name, email }\<close> by the callers modelled here, except \<open>from\<close>, a plain string.
\<close>

record SendEmailOptions =
  to' :: Contact
  from' :: "string option"
  subject :: string
  html :: string
  attachments :: "EmailAttachment list"
  tags :: "string list"
  headers :: "(string \<times> string) list"

record EmailProviderResponse =
  messageId :: "string option"
  delivery_status :: "string option"
  delivery_error :: "string option"

text \<open>
  The configuration the constructor stores: \<open>retryAttempts\<close> and \<open>retryDelayMs\<close>
  default to 3 and 1000. Logging to the console is not modelled.
\<close>

record EmailServiceConfig =
  defaultFrom :: string
  retryAttempts :: int
  retryDelayMs :: int


text \<open>
  What a send does to the world: calls of the provider and waits, in order. The
  provider is any transport whose answer depends on the message and on the calls made
  to it before.
\<close>

datatype effect = ProviderSend SendEmailOptions | Delay int

type_synonym EmailProvider =
  "SendEmailOptions list \<Rightarrow> SendEmailOptions \<Rightarrow> thrown + EmailProviderResponse"

fun provider_calls :: "effect list \<Rightarrow> SendEmailOptions list" where
  "provider_calls [] = []"
| "provider_calls (ProviderSend m # w) = m # provider_calls w"
| "provider_calls (Delay ms # w) = provider_calls w"

fun delays :: "effect list \<Rightarrow> int list" where
  "delays [] = []"
| "delays (ProviderSend m # w) = delays w"
| "delays (Delay ms # w) = ms # delays w"

text \<open>The loop \<open>for (let attempt = 1; attempt <= retryAttempts; attempt++)\<close> and what follows it.\<close>

function send_attempts ::
  "EmailServiceConfig \<Rightarrow> EmailProvider \<Rightarrow> SendEmailOptions \<Rightarrow> int \<Rightarrow> thrown option
   \<Rightarrow> effect list \<Rightarrow> (thrown + EmailProviderResponse) \<times> effect list" where
  "send_attempts cfg provider normalized attempt lastError w =
     (if attempt \<le> retryAttempts cfg
      then (case provider (provider_calls w) normalized of
              Inr response \<Rightarrow> (Inr response, w @ [ProviderSend normalized])
            | Inl err \<Rightarrow>
                send_attempts cfg provider normalized (attempt + 1) (Some err)
                  (if attempt < retryAttempts cfg
                   then w @ [ProviderSend normalized, Delay (retryDelayMs cfg * attempt)]
                   else w @ [ProviderSend normalized]))
      else (Inl (Error (''Failed to send email after '' @ show_int (retryAttempts cfg)
                        @ '' attempts: '' @ template_message lastError)), w))"
  by pat_completeness auto
termination
  by (relation "measure (\<lambda>(cfg, provider, normalized, attempt, lastError, w).
                  nat (retryAttempts cfg + 1 - attempt))") auto

declare send_attempts.simps [simp del]

definition normalize :: "EmailServiceConfig \<Rightarrow> SendEmailOptions \<Rightarrow> SendEmailOptions" where
  "normalize cfg options =
     options\<lparr> from' := (case from' options of
                          None \<Rightarrow> Some (defaultFrom cfg)
                        | Some f \<Rightarrow> Some f) \<rparr>"

definition send ::
  "EmailServiceConfig \<Rightarrow> EmailProvider \<Rightarrow> SendEmailOptions \<Rightarrow> effect list
   \<Rightarrow> (thrown + EmailProviderResponse) \<times> effect list" where
  "send cfg provider options w = send_attempts cfg provider (normalize cfg options) 1 None w"



text \<open>A text without a carriage return.\<close>

definition no_CR :: "string \<Rightarrow> bool" where
  "no_CR s \<longleftrightarrow> CHR 0x0D \<notin> set s"

subsection \<open>Calendar attachments for e-mail\<close>

text \<open>\<open>Buffer.from(text, 'utf-8').toString('base64')\<close> on the bytes of the text.\<close>

definition base64_digit :: "nat \<Rightarrow> char" where
  "base64_digit n =
     ''ABCDEFGHIJKLMNOPQRSTUVWXYZabcdefghijklmnopqrstuvwxyz0123456789+/'' ! n"

fun base64_bytes :: "nat list \<Rightarrow> string" where
  "base64_bytes [] = []"
| "base64_bytes [a] =
     [base64_digit (a div 4), base64_digit ((a mod 4) * 16), CHR ''='', CHR ''='']"
| "base64_bytes [a, b] =
     [base64_digit (a div 4), base64_digit ((a mod 4) * 16 + b div 16),
      base64_digit ((b mod 16) * 4), CHR ''='']"
| "base64_bytes (a # b # c # rest) =
     [base64_digit (a div 4), base64_digit ((a mod 4) * 16 + b div 16),
      base64_digit ((b mod 16) * 4 + c div 64), base64_digit (c mod 64)]
     @ base64_bytes rest"

definition base64 :: "string \<Rightarrow> string" where
  "base64 text = base64_bytes (map of_char text)"

text \<open>
  The attachments of \<open>ics-email.ts\<close>. The option \<open>location\<close> is read there and not
  used.
\<close>

definition generateConfirmationICS ::
  "Runtime \<Rightarrow> Appointment \<Rightarrow> string \<Rightarrow> string \<Rightarrow> string option \<Rightarrow> string option
   \<Rightarrow> EmailAttachment" where
  "generateConfirmationICS rt appointment doctorName patientName doctorEmail patientEmail =
     \<lparr> filename = ''cita_'' @ id' appointment @ ''.ics'',
       content = base64 (generateAppointmentICS rt appointment doctorName patientName
                           doctorEmail patientEmail),
       contentType = ''text/calendar; charset=utf-8; method=REQUEST'',
       encoding = ''base64'' \<rparr>"

definition generateReminderICS ::
  "Runtime \<Rightarrow> Appointment \<Rightarrow> string \<Rightarrow> string \<Rightarrow> string option \<Rightarrow> string option
   \<Rightarrow> EmailAttachment" where
  "generateReminderICS rt appointment doctorName patientName doctorEmail patientEmail =
     \<lparr> filename = ''recordatorio_'' @ id' appointment @ ''.ics'',
       content = base64 (generateAppointmentICS rt appointment doctorName patientName
                           doctorEmail patientEmail),
       contentType = ''text/calendar; charset=utf-8; method=PUBLISH'',
       encoding = ''base64'' \<rparr>"

subsection \<open>The appointment e-mails\<close>

text \<open>
  The orchestrator is given its e-mail service. A service is anything with a \<open>send\<close>
  that acts on some world \<open>'w\<close> and either returns the provider's response or throws;
  \<open>send cfg provider\<close> above is one, on the world of provider calls and delays.
\<close>

type_synonym 'w email_service =
  "SendEmailOptions \<Rightarrow> 'w \<Rightarrow> (thrown + EmailProviderResponse) \<times> 'w"

text \<open>
  The templates render with MJML and \<open>Intl\<close>, outside the repository's own logic; a
  rendering returns the HTML or throws.
\<close>

datatype HoursBefore = H24 | H2

fun show_HoursBefore :: "HoursBefore \<Rightarrow> string" where
  "show_HoursBefore H24 = ''24''"
| "show_HoursBefore H2 = ''2''"

record ConfirmationTemplateParams =
  template_appointment :: Appointment
  template_doctorName :: string
  template_patientName :: string
  template_clinicName :: "string option"
  template_clinicAddress :: "string option"
  template_appointmentUrl :: "string option"
  template_timezone :: "string option"

record ReminderTemplateParams = ConfirmationTemplateParams +
  template_hoursBefore :: HoursBefore
  template_contactPhone :: "string option"

record Templates =
  confirmationTemplate :: "ConfirmationTemplateParams \<Rightarrow> thrown + string"
  reminderTemplate :: "ReminderTemplateParams \<Rightarrow> thrown + string"

record AppointmentEmailOptions =
  appointment :: Appointment
  doctor :: Contact
  patient :: Contact
  clinicName :: "string option"
  clinicAddress :: "string option"
  appointmentUrl :: "string option"
  contactPhone :: "string option"
  timezone :: "string option"

record ReminderEmailOptions = AppointmentEmailOptions +
  hoursBefore :: HoursBefore

text \<open>A destructuring default: \<open>const { clinicName = 'AutaMedica' } = options\<close>.\<close>

fun default_to :: "string \<Rightarrow> string option \<Rightarrow> string" where
  "default_to d None = d"
| "default_to d (Some v) = v"

text \<open>
  \<open>text.replace(pattern, replacement)\<close> with a string pattern: the first occurrence.
  The \<open>$\<close> patterns of a replacement string are not interpreted.
\<close>

fun replace_first :: "string \<Rightarrow> string \<Rightarrow> string \<Rightarrow> string" where
  "replace_first pat rep [] = (if pat = [] then rep else [])"
| "replace_first pat rep (c # cs) =
     (if starts_with (c # cs) pat then rep @ drop (length pat) (c # cs)
      else c # replace_first pat rep cs)"

text \<open>The signs that open the subjects, and the letter n with a tilde, in UTF-8.\<close>

definition check_mark :: string where
  "check_mark = [CHR 0xE2, CHR 0x9C, CHR 0x85]"

definition clipboard :: string where
  "clipboard = [CHR 0xF0, CHR 0x9F, CHR 0x93, CHR 0x8B]"

definition alarm_clock :: string where
  "alarm_clock = [CHR 0xE2, CHR 0x8F, CHR 0xB0]"

definition calendar_sign :: string where
  "calendar_sign = [CHR 0xF0, CHR 0x9F, CHR 0x93, CHR 0x85]"

definition n_tilde :: string where
  "n_tilde = [CHR 0xC3, CHR 0xB1]"

text \<open>The two messages \<open>sendConfirmationEmail\<close> builds.\<close>

definition confirmation_patient_message ::
  "'a AppointmentEmailOptions_scheme \<Rightarrow> string \<Rightarrow> EmailAttachment \<Rightarrow> SendEmailOptions" where
  "confirmation_patient_message options html_text icsAttachment =
     \<lparr> to' = \<lparr> name = name (patient options), email = email (patient options) \<rparr>,
       from' = None,
       subject = check_mark @ '' Cita confirmada - ''
                 @ default_to ''AutaMedica'' (clinicName options),
       html = html_text,
       attachments = [icsAttachment],
       tags = [''appointment'', ''confirmation''],
       headers = [(''X-Appointment-ID'', id' (appointment options)),
                  (''X-Appointment-Type'', ''confirmation'')] \<rparr>"

definition confirmation_doctor_message ::
  "'a AppointmentEmailOptions_scheme \<Rightarrow> string \<Rightarrow> EmailAttachment \<Rightarrow> SendEmailOptions" where
  "confirmation_doctor_message options html_text icsAttachment =
     \<lparr> to' = \<lparr> name = name (doctor options), email = email (doctor options) \<rparr>,
       from' = None,
       subject = clipboard @ '' Cita confirmada con '' @ name (patient options) @ '' - ''
                 @ default_to ''AutaMedica'' (clinicName options),
       html = replace_first ''Tu cita'' (''La cita con '' @ name (patient options))
                (replace_first (name (patient options)) (name (doctor options)) html_text),
       attachments = [icsAttachment],
       tags = [''appointment'', ''confirmation'', ''doctor-copy''],
       headers = [(''X-Appointment-ID'', id' (appointment options)),
                  (''X-Appointment-Type'', ''confirmation-doctor'')] \<rparr>"

definition confirmation_params ::
  "'a AppointmentEmailOptions_scheme \<Rightarrow> ConfirmationTemplateParams" where
  "confirmation_params options =
     \<lparr> template_appointment = appointment options,
       template_doctorName = name (doctor options),
       template_patientName = name (patient options),
       template_clinicName = Some (default_to ''AutaMedica'' (clinicName options)),
       template_clinicAddress =
         Some (default_to (''Consultorio m'' @ e_acute @ ''dico'') (clinicAddress options)),
       template_appointmentUrl = Some (default_to ''#'' (appointmentUrl options)),
       template_timezone =
         Some (default_to ''America/Argentina/Buenos_Aires'' (timezone options)) \<rparr>"

text \<open>Whether the doctor gets a copy: \<open>doctor.email && doctor.email !== patient.email\<close>.\<close>

definition doctor_copy_due :: "'a AppointmentEmailOptions_scheme \<Rightarrow> bool" where
  "doctor_copy_due options \<longleftrightarrow>
     email (doctor options) \<noteq> [] \<and> email (doctor options) \<noteq> email (patient options)"

text \<open>The body of the \<open>try\<close> block of \<open>sendConfirmationEmail\<close>, and the function.\<close>

definition sendConfirmationEmail_try ::
  "Runtime \<Rightarrow> Templates \<Rightarrow> 'w email_service \<Rightarrow> 'a AppointmentEmailOptions_scheme \<Rightarrow> 'w
   \<Rightarrow> (thrown + unit) \<times> 'w" where
  "sendConfirmationEmail_try rt templates emailService options w =
     (case confirmationTemplate templates (confirmation_params options) of
        Inl t \<Rightarrow> (Inl t, w)
      | Inr html_text \<Rightarrow>
          (let icsAttachment =
                 generateConfirmationICS rt (appointment options) (name (doctor options))
                   (name (patient options)) (Some (email (doctor options)))
                   (Some (email (patient options)));
               (sent, w1) =
                 emailService (confirmation_patient_message options html_text icsAttachment) w
           in case sent of
                Inl t \<Rightarrow> (Inl t, w1)
              | Inr response \<Rightarrow>
                  if doctor_copy_due options
                  then (let (copied, w2) =
                              emailService
                                (confirmation_doctor_message options html_text icsAttachment) w1
                        in case copied of
                             Inl t \<Rightarrow> (Inl t, w2)
                           | Inr response2 \<Rightarrow> (Inr (), w2))
                  else (Inr (), w1)))"

definition sendConfirmationEmail ::
  "Runtime \<Rightarrow> Templates \<Rightarrow> 'w email_service \<Rightarrow> 'a AppointmentEmailOptions_scheme \<Rightarrow> 'w
   \<Rightarrow> (thrown + unit) \<times> 'w" where
  "sendConfirmationEmail rt templates emailService options w =
     (case sendConfirmationEmail_try rt templates emailService options w of
        (Inl err, w') \<Rightarrow>
          (Inl (Error (''Failed to send confirmation email: ''
                       @ message_or ''Unknown error'' err)), w')
      | (Inr u, w') \<Rightarrow> (Inr u, w'))"

text \<open>The reminder: one message, to the patient.\<close>

definition reminder_params :: "ReminderEmailOptions \<Rightarrow> ReminderTemplateParams" where
  "reminder_params options =
     \<lparr> template_appointment = appointment options,
       template_doctorName = name (doctor options),
       template_patientName = name (patient options),
       template_clinicName = Some (default_to ''AutaMedica'' (clinicName options)),
       template_clinicAddress =
         Some (default_to (''Consultorio m'' @ e_acute @ ''dico'') (clinicAddress options)),
       template_appointmentUrl = Some (default_to ''#'' (appointmentUrl options)),
       template_timezone =
         Some (default_to ''America/Argentina/Buenos_Aires'' (timezone options)),
       template_hoursBefore = hoursBefore options,
       template_contactPhone = contactPhone options \<rparr>"

definition reminder_message ::
  "ReminderEmailOptions \<Rightarrow> string \<Rightarrow> EmailAttachment \<Rightarrow> SendEmailOptions" where
  "reminder_message options html_text icsAttachment =
     (let isUrgent = (hoursBefore options = H2);
          urgencyEmoji = (if isUrgent then alarm_clock else calendar_sign);
          timeText = (if hoursBefore options = H24 then ''ma'' @ n_tilde @ ''ana''
                      else ''en 2 horas'')
      in \<lparr> to' = \<lparr> name = name (patient options), email = email (patient options) \<rparr>,
           from' = None,
           subject = urgencyEmoji @ '' Recordatorio: Tu cita es '' @ timeText @ '' - ''
                     @ default_to ''AutaMedica'' (clinicName options),
           html = html_text,
           attachments = [icsAttachment],
           tags = [''appointment'', ''reminder'',
                   ''reminder-'' @ show_HoursBefore (hoursBefore options) @ ''h''],
           headers = [(''X-Appointment-ID'', id' (appointment options)),
                      (''X-Appointment-Type'', ''reminder''),
                      (''X-Reminder-Hours'', show_HoursBefore (hoursBefore options)),
                      (''X-Priority'', if isUrgent then ''high'' else ''normal'')] \<rparr>)"

definition sendReminderEmail_try ::
  "Runtime \<Rightarrow> Templates \<Rightarrow> 'w email_service \<Rightarrow> ReminderEmailOptions \<Rightarrow> 'w
   \<Rightarrow> (thrown + unit) \<times> 'w" where
  "sendReminderEmail_try rt templates emailService options w =
     (case reminderTemplate templates (reminder_params options) of
        Inl t \<Rightarrow> (Inl t, w)
      | Inr html_text \<Rightarrow>
          (let icsAttachment =
                 generateReminderICS rt (appointment options) (name (doctor options))
                   (name (patient options)) (Some (email (doctor options)))
                   (Some (email (patient options)));
               (sent, w1) = emailService (reminder_message options html_text icsAttachment) w
           in case sent of
                Inl t \<Rightarrow> (Inl t, w1)
              | Inr response \<Rightarrow> (Inr (), w1)))"

definition sendReminderEmail ::
  "Runtime \<Rightarrow> Templates \<Rightarrow> 'w email_service \<Rightarrow> ReminderEmailOptions \<Rightarrow> 'w
   \<Rightarrow> (thrown + unit) \<times> 'w" where
  "sendReminderEmail rt templates emailService options w =
     (case sendReminderEmail_try rt templates emailService options w of
        (Inl err, w') \<Rightarrow>
          (Inl (Error (''Failed to send reminder email: ''
                       @ message_or ''Unknown error'' err)), w')
      | (Inr u, w') \<Rightarrow> (Inr u, w'))"

subsection \<open>Batches of reminders\<close>

record BatchItem =
  item_appointment :: Appointment
  item_doctor :: Contact
  item_patient :: Contact
  item_hoursBefore :: HoursBefore

text \<open>\<open>commonOptions\<close>, a \<open>Partial<AppointmentEmailOptions>\<close>: every key may be absent.\<close>

record CommonOptions =
  common_appointment :: "Appointment option"
  common_doctor :: "Contact option"
  common_patient :: "Contact option"
  common_clinicName :: "string option"
  common_clinicAddress :: "string option"
  common_appointmentUrl :: "string option"
  common_contactPhone :: "string option"
  common_timezone :: "string option"

text \<open>\<open>{ ...item, ...commonOptions }\<close>\<close>

definition merge_options :: "BatchItem \<Rightarrow> CommonOptions \<Rightarrow> ReminderEmailOptions" where
  "merge_options item common =
     \<lparr> appointment = (case common_appointment common of
                        Some a \<Rightarrow> a | None \<Rightarrow> item_appointment item),
       doctor = (case common_doctor common of Some d \<Rightarrow> d | None \<Rightarrow> item_doctor item),
       patient = (case common_patient common of Some p \<Rightarrow> p | None \<Rightarrow> item_patient item),
       clinicName = common_clinicName common,
       clinicAddress = common_clinicAddress common,
       appointmentUrl = common_appointmentUrl common,
       contactPhone = common_contactPhone common,
       timezone = common_timezone common,
       hoursBefore = item_hoursBefore item \<rparr>"

record BatchResults =
  successful :: nat
  failed :: nat
  errors :: "string list"

text \<open>The entry of \<open>errors\<close> for an item whose send threw \<open>err\<close>.\<close>

definition batch_error :: "BatchItem \<Rightarrow> thrown \<Rightarrow> string" where
  "batch_error item err =
     ''Appointment '' @ id' (item_appointment item) @ '': ''
     @ message_or ''Unknown error'' err"

text \<open>The loop \<open>for (const item of appointments)\<close> on the running \<open>results\<close>.\<close>

fun sendBatchReminders_loop ::
  "Runtime \<Rightarrow> Templates \<Rightarrow> 'w email_service \<Rightarrow> CommonOptions \<Rightarrow> BatchItem list
   \<Rightarrow> BatchResults \<Rightarrow> 'w \<Rightarrow> BatchResults \<times> 'w" where
  "sendBatchReminders_loop rt templates emailService common [] results w = (results, w)"
| "sendBatchReminders_loop rt templates emailService common (item # rest) results w =
     (case sendReminderEmail rt templates emailService (merge_options item common) w of
        (Inr u, w') \<Rightarrow>
          sendBatchReminders_loop rt templates emailService common rest
            (results\<lparr> successful := successful results + 1 \<rparr>) w'
      | (Inl err, w') \<Rightarrow>
          sendBatchReminders_loop rt templates emailService common rest
            (results\<lparr> failed := failed results + 1,
                      errors := errors results @ [batch_error item err] \<rparr>) w')"

definition sendBatchReminders ::
  "Runtime \<Rightarrow> Templates \<Rightarrow> 'w email_service \<Rightarrow> BatchItem list \<Rightarrow> CommonOptions \<Rightarrow> 'w
   \<Rightarrow> BatchResults \<times> 'w" where
  "sendBatchReminders rt templates emailService items common w =
     sendBatchReminders_loop rt templates emailService common items
       \<lparr> successful = 0, failed = 0, errors = [] \<rparr> w"

text \<open>
  What the specification speaks of: the outcome of each item's send when the items are taken
  one after the other, each on the world the one before left, and the world after the
  last.
\<close>

fun item_outcomes ::
  "Runtime \<Rightarrow> Templates \<Rightarrow> 'w email_service \<Rightarrow> CommonOptions \<Rightarrow> BatchItem list \<Rightarrow> 'w
   \<Rightarrow> (thrown + unit) list" where
  "item_outcomes rt templates emailService common [] w = []"
| "item_outcomes rt templates emailService common (item # rest) w =
     (let (r, w') = sendReminderEmail rt templates emailService (merge_options item common) w
      in r # item_outcomes rt templates emailService common rest w')"

fun world_after_items ::
  "Runtime \<Rightarrow> Templates \<Rightarrow> 'w email_service \<Rightarrow> CommonOptions \<Rightarrow> BatchItem list \<Rightarrow> 'w \<Rightarrow> 'w" where
  "world_after_items rt templates emailService common [] w = w"
| "world_after_items rt templates emailService common (item # rest) w =
     world_after_items rt templates emailService common rest
       (snd (sendReminderEmail rt templates emailService (merge_options item common) w))"

text \<open>The entries for the items that failed, in the order of the items.\<close>

fun failure_entries :: "BatchItem list \<Rightarrow> (thrown + unit) list \<Rightarrow> string list" where
  "failure_entries (item # items) (Inl err # outcomes) =
     batch_error item err # failure_entries items outcomes"
| "failure_entries (item # items) (Inr u # outcomes) = failure_entries items outcomes"
| "failure_entries items outcomes = []"

text \<open>
  A service for tests: it records the messages it is given and answers the \<open>k\<close>-th
  call with the \<open>k\<close>-th entry of a script, and with success once the script is over.
\<close>

definition scripted_service ::
  "(thrown + EmailProviderResponse) list \<Rightarrow> SendEmailOptions list email_service" where
  "scripted_service script msg calls =
     ((if length calls < length script then script ! length calls
       else Inr \<lparr> messageId = None, delivery_status = Some ''sent'', delivery_error = None \<rparr>),
      calls @ [msg])"

subsection \<open>Example data\<close>

text \<open>
  Doctor \<open>D\<close> has appointment \<open>X\<close> on 2024-01-15 from 10:00 to 10:30 UTC
  (\<open>1705312800000\<close> to \<open>1705314600000\<close>).
\<close>

definition booked :: Appointment where
  "booked = \<lparr> id' = ''X'', starts_at = 1705312800000, ends_at = 1705314600000,
               doctor_id = ''D'', patient_id = ''P'', status = scheduled, notes' = None,
               created_at = 1704067200000, updated_at = 1704067200000 \<rparr>"


definition sent_response :: EmailProviderResponse where
  "sent_response = \<lparr> messageId = Some ''msg-123'', delivery_status = Some ''sent'',
                      delivery_error = None \<rparr>"



text \<open>A runtime in Buenos Aires, on 2024-01-11; the zone is at UTC-03:00 then.\<close>

definition example_runtime :: Runtime where
  "example_runtime = \<lparr> tz = (\<lambda>s. s - 10800), clock = 1705000000000, random36 = ''k3j9x0a1b2c'' \<rparr>"

text \<open>
  Templates that render to fixed texts, the options of a confirmation, the same with
  one address for doctor and patient, and a batch of three reminders.
\<close>

definition plain_templates :: Templates where
  "plain_templates =
     \<lparr> confirmationTemplate = (\<lambda>p. Inr ''<html><body>Tu cita con Juan Perez</body></html>''),
       reminderTemplate = (\<lambda>p. Inr ''<html><body>Reminder email content</body></html>'') \<rparr>"

definition confirmation_options :: AppointmentEmailOptions where
  "confirmation_options =
     \<lparr> appointment = booked,
       doctor = \<lparr> name = ''Dr. Garcia'', email = ''garcia@clinic.com'' \<rparr>,
       patient = \<lparr> name = ''Juan Perez'', email = ''juan@email.com'' \<rparr>,
       clinicName = Some ''AutaMedica Test'', clinicAddress = Some ''Av. Test 123'',
       appointmentUrl = None, contactPhone = None, timezone = None \<rparr>"

definition batch_items :: "BatchItem list" where
  "batch_items =
     [\<lparr> item_appointment = booked\<lparr> id' := ''apt-123'' \<rparr>,
        item_doctor = \<lparr> name = ''Dr. Garcia'', email = ''garcia@clinic.com'' \<rparr>,
        item_patient = \<lparr> name = ''Juan Perez'', email = ''juan@email.com'' \<rparr>,
        item_hoursBefore = H24 \<rparr>,
      \<lparr> item_appointment = booked\<lparr> id' := ''apt-456'' \<rparr>,
        item_doctor = \<lparr> name = ''Dr. Garcia'', email = ''garcia@clinic.com'' \<rparr>,
        item_patient = \<lparr> name = ''Maria Lopez'', email = ''maria@email.com'' \<rparr>,
        item_hoursBefore = H2 \<rparr>,
      \<lparr> item_appointment = booked\<lparr> id' := ''apt-789'' \<rparr>,
        item_doctor = \<lparr> name = ''Dr. Garcia'', email = ''garcia@clinic.com'' \<rparr>,
        item_patient = \<lparr> name = ''Carlos Ruiz'', email = ''carlos@email.com'' \<rparr>,
        item_hoursBefore = H24 \<rparr>]"

definition no_common :: CommonOptions where
  "no_common =
     \<lparr> common_appointment = None, common_doctor = None, common_patient = None,
       common_clinicName = None, common_clinicAddress = None, common_appointmentUrl = None,
       common_contactPhone = None, common_timezone = None \<rparr>"

definition shared_address_options :: AppointmentEmailOptions where
  "shared_address_options =
     confirmation_options\<lparr> doctor := \<lparr> name = ''Dr. Garcia'', email = ''juan@email.com'' \<rparr> \<rparr>"

text \<open>
  A platform for the time policy. Buenos Aires is as the time-zone data has it for
  instants from 2001 on: at UTC-03:00, but at UTC-02:00 from 2007-12-30 03:00 UTC to
  2008-03-16 02:00 UTC and from 2008-10-19 03:00 UTC to 2009-03-15 02:00 UTC. The runtime
  is at UTC+02:00 all year, so that it reads every wall clock back.
\<close>

definition example_platform :: Platform where
  "example_platform =
     \<lparr> buenos_aires =
         (\<lambda>s. if (1198983600 \<le> s \<and> s < 1205632800) \<or> (1224385200 \<le> s \<and> s < 1237082400)
              then s - 7200 else s - 10800),
       local_zone = (\<lambda>s. s + 7200),
       local_time = (\<lambda>w. w - 7200) \<rparr>"

section \<open>Properties\<close>

subsection \<open>Overlap detection\<close>

lemma validateAppointmentOverlap_answered:
  "fault b = None \<Longrightarrow>
   validateAppointmentOverlap b s e d x =
     Inr \<lparr> hasOverlap = (filter (overlap_filter s e d x) (appointments b) \<noteq> []),
           conflictingAppointments =
             map AppointmentSlot.truncate (filter (overlap_filter s e d x) (appointments b)),
           message =
             (if filter (overlap_filter s e d x) (appointments b) \<noteq> []
              then Some (''Conflicto de horario detectado. Hay ''
                         @ show_nat (length (filter (overlap_filter s e d x) (appointments b)))
                         @ '' cita(s) en ese horario.'')
              else None) \<rparr>"
  by (simp add: validateAppointmentOverlap_def validateAppointmentOverlap_try_def
      run_select_def Let_def)

lemma validateAppointmentOverlap_total:
  "\<exists>r. validateAppointmentOverlap b s e d x = Inr r"
  by (simp add: validateAppointmentOverlap_def split: sum.splits)

lemma overlap_filter_iff:
  "overlap_filter s e d x a \<longleftrightarrow>
     doctor_id a = d \<and> status a \<noteq> cancelled \<and> truthy x \<noteq> Some (id' a)
     \<and> starts_at a < e \<and> ends_at a > s"
  by (cases x) (auto simp: overlap_filter_def)

lemma show_nat_1: "show_nat 1 = ''1''" "show_nat (Suc 0) = ''1''"
  by (simp_all add: show_nat.simps)

text \<open>
  C1, as stated, fails in two ways. With a backend whose query fails, the hook reports
  no overlap although appointment \<open>X\<close> of doctor \<open>D\<close>, not cancelled, intersects the
  candidate range 10:15 to 10:45. And the service's check, which goes through the SQL
  function, reports the same appointment as a conflict after it has been cancelled.
\<close>

theorem overlap_check_exact_counterexample:
  "validateAppointmentOverlap
     \<lparr> appointments = [booked], fault = Some (PostgrestError ''timeout'') \<rparr>
     1705313700000 1705315500000 ''D'' None
   = Inr \<lparr> hasOverlap = False, conflictingAppointments = [], message = Some ''timeout'' \<rparr>
   \<and> doctor_id booked = ''D'' \<and> status booked \<noteq> cancelled
   \<and> starts_at booked < 1705315500000 \<and> ends_at booked > 1705313700000
   \<and> checkOverlap
       \<lparr> appointments = [booked\<lparr> status := cancelled \<rparr>], fault = None \<rparr>
       ''D'' 1705313700000 1705315500000 None
     = Inr \<lparr> hasOverlap = True,
             conflictingAppointments =
               [\<lparr> id' = ''X'', starts_at = 1705312800000, ends_at = 1705314600000 \<rparr>],
             message = Some ''Conflicto detectado: 1 cita(s) en ese horario'' \<rparr>"
  by (simp add: validateAppointmentOverlap_def validateAppointmentOverlap_try_def
      run_select_def booked_def checkOverlap_def answer_def check_appointment_overlap_def
      tstzrange_def slot_def RpcRow.truncate_def show_nat_1)

text \<open>
  C1 (amended): when the storage query is answered, the hook \<open>validateAppointmentOverlap\<close>
  reports \<open>hasOverlap = true\<close> exactly when the doctor has an appointment that is not
  cancelled, whose id is not the excluded one (an \<open>excludeId\<close> that is given and not
  empty), and with \<open>starts_at < endsAt\<close> and \<open>ends_at > startsAt\<close>;
  \<open>conflictingAppointments\<close> lists exactly those appointments; and appointments of the
  doctor that end exactly at \<open>startsAt\<close> or start exactly at \<open>endsAt\<close> are not flagged.
\<close>

theorem validateAppointmentOverlap_exact:
  assumes "fault b = None"
  shows "\<exists>r. validateAppointmentOverlap b startsAt endsAt doctorId excludeId = Inr r
      \<and> (hasOverlap r \<longleftrightarrow>
           (\<exists>a \<in> set (appointments b).
              doctor_id a = doctorId \<and> status a \<noteq> cancelled
              \<and> truthy excludeId \<noteq> Some (id' a)
              \<and> starts_at a < endsAt \<and> ends_at a > startsAt))
      \<and> conflictingAppointments r =
          map AppointmentSlot.truncate
            (filter (\<lambda>a. doctor_id a = doctorId \<and> status a \<noteq> cancelled
                          \<and> truthy excludeId \<noteq> Some (id' a)
                          \<and> starts_at a < endsAt \<and> ends_at a > startsAt)
               (appointments b))
      \<and> ((\<forall>a \<in> set (appointments b).
             doctor_id a = doctorId \<longrightarrow> ends_at a = startsAt \<or> starts_at a = endsAt)
          \<longrightarrow> \<not> hasOverlap r)"
proof -
  let ?flt = "overlap_filter startsAt endsAt doctorId excludeId"
  let ?cond = "\<lambda>a. doctor_id a = doctorId \<and> status a \<noteq> cancelled
                    \<and> truthy excludeId \<noteq> Some (id' a)
                    \<and> starts_at a < endsAt \<and> ends_at a > startsAt"
  have same: "?flt = ?cond"
    by (rule ext) (rule overlap_filter_iff)
  have nonempty: "(filter ?cond (appointments b) \<noteq> []) \<longleftrightarrow> (\<exists>a \<in> set (appointments b). ?cond a)"
    by (auto simp: filter_empty_conv)
  have touching: "(\<forall>a \<in> set (appointments b).
             doctor_id a = doctorId \<longrightarrow> ends_at a = startsAt \<or> starts_at a = endsAt)
          \<longrightarrow> \<not> (\<exists>a \<in> set (appointments b). ?cond a)"
    by auto
  show ?thesis
    unfolding validateAppointmentOverlap_answered [OF assms] same
    using nonempty touching by simp
qed

theorem validateAppointmentOverlap_exact_witness:
  "fault \<lparr> appointments = [booked], fault = None \<rparr> = None
   \<and> (\<exists>r. validateAppointmentOverlap \<lparr> appointments = [booked], fault = None \<rparr>
             1705313700000 1705315500000 ''D'' (Some ''Y'') = Inr r
          \<and> hasOverlap r
          \<and> conflictingAppointments r
              = [\<lparr> id' = ''X'', starts_at = 1705312800000, ends_at = 1705314600000,
                    doctor_id = ''D'' \<rparr>])
   \<and> (\<exists>r. validateAppointmentOverlap \<lparr> appointments = [booked], fault = None \<rparr>
             1705314600000 1705316400000 ''D'' None = Inr r
          \<and> \<not> hasOverlap r)"
  using validateAppointmentOverlap_exact
          [of "\<lparr> appointments = [booked], fault = None \<rparr>"
              1705313700000 1705315500000 "''D''" "Some ''Y''"]
        validateAppointmentOverlap_exact
          [of "\<lparr> appointments = [booked], fault = None \<rparr>"
              1705314600000 1705316400000 "''D''" None]
  by (auto simp: booked_def AppointmentSlot.truncate_def)

text \<open>
  C6, as stated, fails: the hook has no range check and no \<open>InvalidRangeError\<close>. For
  the inverted candidate range from 10:20 back to 10:10 it returns a normal validation
  result, here a conflict with appointment \<open>X\<close>.
\<close>

theorem invalid_range_rejected_counterexample:
  "\<not> (1705313400000 :: int) > 1705314000000
   \<and> validateAppointmentOverlap \<lparr> appointments = [booked], fault = None \<rparr>
       1705314000000 1705313400000 ''D'' None
     = Inr \<lparr> hasOverlap = True,
             conflictingAppointments =
               [\<lparr> id' = ''X'', starts_at = 1705312800000, ends_at = 1705314600000,
                   doctor_id = ''D'' \<rparr>],
             message =
               Some ''Conflicto de horario detectado. Hay 1 cita(s) en ese horario.'' \<rparr>"
  by (simp add: validateAppointmentOverlap_answered booked_def overlap_filter_def
      AppointmentSlot.truncate_def show_nat_1)

text \<open>
  C6 (amended): \<open>validateAppointmentOverlap\<close> does not validate the range. For every
  input that violates \<open>endsAt > startsAt\<close> it returns a normal overlap-validation
  result, which for an answered query is computed by the same filter as for a valid
  range.
\<close>

theorem validateAppointmentOverlap_accepts_invalid_range:
  assumes "\<not> endsAt > startsAt"
  shows "\<exists>r. validateAppointmentOverlap b startsAt endsAt doctorId excludeId = Inr r
      \<and> (fault b = None \<longrightarrow>
           conflictingAppointments r =
             map AppointmentSlot.truncate
               (filter (overlap_filter startsAt endsAt doctorId excludeId) (appointments b))
           \<and> hasOverlap r = (conflictingAppointments r \<noteq> []))"
proof (cases "fault b")
  case None
  then show ?thesis
    by (simp add: validateAppointmentOverlap_answered)
next
  case (Some f)
  then show ?thesis
    using validateAppointmentOverlap_total [of b startsAt endsAt doctorId excludeId]
    by simp
qed

theorem validateAppointmentOverlap_accepts_invalid_range_witness:
  "\<not> (1705313400000 :: int) > 1705314000000
   \<and> (\<exists>r. validateAppointmentOverlap \<lparr> appointments = [booked], fault = None \<rparr>
             1705314000000 1705313400000 ''D'' None = Inr r
          \<and> hasOverlap r)"
  using validateAppointmentOverlap_accepts_invalid_range
          [of 1705313400000 1705314000000 "\<lparr> appointments = [booked], fault = None \<rparr>"
              "''D''" None]
  by (simp add: validateAppointmentOverlap_answered booked_def overlap_filter_def)

text \<open>
  C7, as stated, fails on the hook: with one conflicting appointment its message is
  \<open>Conflicto de horario detectado. Hay 1 cita(s) en ese horario.\<close>, not
  \<open>Conflicto detectado: 1 cita(s) en ese horario\<close>.
\<close>

theorem conflict_message_counterexample:
  "validateAppointmentOverlap \<lparr> appointments = [booked], fault = None \<rparr>
       1705313700000 1705315500000 ''D'' None
     = Inr \<lparr> hasOverlap = True,
             conflictingAppointments =
               [\<lparr> id' = ''X'', starts_at = 1705312800000, ends_at = 1705314600000,
                   doctor_id = ''D'' \<rparr>],
             message =
               Some ''Conflicto de horario detectado. Hay 1 cita(s) en ese horario.'' \<rparr>
   \<and> ''Conflicto de horario detectado. Hay 1 cita(s) en ese horario.''
       \<noteq> ''Conflicto detectado: 1 cita(s) en ese horario''"
  by (simp add: validateAppointmentOverlap_answered booked_def overlap_filter_def
      AppointmentSlot.truncate_def show_nat_1)

text \<open>
  C7 (amended): an overlap check that finds \<open>N > 0\<close> conflicting appointments carries
  \<open>hasOverlap = true\<close> and a message that depends on the path: the hook
  \<open>validateAppointmentOverlap\<close> (for an answered query) says
  \<open>Conflicto de horario detectado. Hay N cita(s) en ese horario.\<close>, the service's
  \<open>checkOverlap\<close> says \<open>Conflicto detectado: N cita(s) en ese horario\<close>. When the check
  finds no conflict, \<open>hasOverlap = false\<close> and the message is absent.
\<close>

theorem overlap_result_message:
  "(fault b = None \<longrightarrow>
      (\<exists>r. validateAppointmentOverlap b startsAt endsAt doctorId excludeId = Inr r
         \<and> hasOverlap r = (length (conflictingAppointments r) > 0)
         \<and> message r =
             (if length (conflictingAppointments r) > 0
              then Some (''Conflicto de horario detectado. Hay ''
                         @ show_nat (length (conflictingAppointments r))
                         @ '' cita(s) en ese horario.'')
              else None)))
   \<and> (\<forall>r. checkOverlap b doctorId startsAt endsAt excludeId = Inr r \<longrightarrow>
         hasOverlap r = (length (conflictingAppointments r) > 0)
         \<and> message r =
             (if length (conflictingAppointments r) > 0
              then Some (''Conflicto detectado: ''
                         @ show_nat (length (conflictingAppointments r))
                         @ '' cita(s) en ese horario'')
              else None))"
proof (intro conjI impI allI)
  assume "fault b = None"
  then show "\<exists>r. validateAppointmentOverlap b startsAt endsAt doctorId excludeId = Inr r
         \<and> hasOverlap r = (length (conflictingAppointments r) > 0)
         \<and> message r =
             (if length (conflictingAppointments r) > 0
              then Some (''Conflicto de horario detectado. Hay ''
                         @ show_nat (length (conflictingAppointments r))
                         @ '' cita(s) en ese horario.'')
              else None)"
    by (simp add: validateAppointmentOverlap_answered)
next
  fix r
  assume r: "checkOverlap b doctorId startsAt endsAt excludeId = Inr r"
  then show "hasOverlap r = (length (conflictingAppointments r) > 0)"
    by (auto simp: checkOverlap_def Let_def
        split: sum.splits PostgrestResponse.splits option.splits)
  from r show "message r =
             (if length (conflictingAppointments r) > 0
              then Some (''Conflicto detectado: ''
                         @ show_nat (length (conflictingAppointments r))
                         @ '' cita(s) en ese horario'')
              else None)"
    by (auto simp: checkOverlap_def Let_def
        split: sum.splits PostgrestResponse.splits option.splits)
qed

theorem overlap_result_message_witness:
  "fault \<lparr> appointments = [booked], fault = None \<rparr> = None
   \<and> (\<exists>r. validateAppointmentOverlap \<lparr> appointments = [booked], fault = None \<rparr>
             1705313700000 1705315500000 ''D'' None = Inr r
          \<and> message r
              = Some ''Conflicto de horario detectado. Hay 1 cita(s) en ese horario.'')
   \<and> checkOverlap \<lparr> appointments = [booked], fault = None \<rparr>
         ''D'' 1705313700000 1705315500000 None
       = Inr \<lparr> hasOverlap = True,
               conflictingAppointments =
                 [\<lparr> id' = ''X'', starts_at = 1705312800000, ends_at = 1705314600000 \<rparr>],
               message = Some ''Conflicto detectado: 1 cita(s) en ese horario'' \<rparr>"
  using overlap_result_message
          [of "\<lparr> appointments = [booked], fault = None \<rparr>"
              1705313700000 1705315500000 "''D''" None]
  by (auto simp: booked_def overlap_filter_def show_nat_1 checkOverlap_def answer_def
      check_appointment_overlap_def tstzrange_def slot_def RpcRow.truncate_def
      validateAppointmentOverlap_answered)

text \<open>
  C10: \<open>validateAppointmentOverlap\<close> never throws. When the storage query fails, by an
  error in the response or by a rejected promise, the result has \<open>hasOverlap = false\<close>,
  no conflicting appointments, and the error's text as its message (for a thrown value
  that is not an \<open>Error\<close>, the text \<open>Error validando solapamientos\<close>).
\<close>

theorem validateAppointmentOverlap_never_throws:
  "(\<exists>r. validateAppointmentOverlap b startsAt endsAt doctorId excludeId = Inr r)
   \<and> (\<forall>m. fault b = Some (PostgrestError m) \<longrightarrow>
         validateAppointmentOverlap b startsAt endsAt doctorId excludeId
           = Inr \<lparr> hasOverlap = False, conflictingAppointments = [], message = Some m \<rparr>)
   \<and> (\<forall>t. fault b = Some (Rejects t) \<longrightarrow>
         validateAppointmentOverlap b startsAt endsAt doctorId excludeId
           = Inr \<lparr> hasOverlap = False, conflictingAppointments = [],
                   message = Some (message_or ''Error validando solapamientos'' t) \<rparr>)"
  by (simp add: validateAppointmentOverlap_total)
     (simp add: validateAppointmentOverlap_def validateAppointmentOverlap_try_def
      run_select_def)

theorem validateAppointmentOverlap_never_throws_witness:
  "validateAppointmentOverlap
     \<lparr> appointments = [booked], fault = Some (PostgrestError ''connection refused'') \<rparr>
     1705313700000 1705315500000 ''D'' None
   = Inr \<lparr> hasOverlap = False, conflictingAppointments = [],
           message = Some ''connection refused'' \<rparr>
   \<and> validateAppointmentOverlap
     \<lparr> appointments = [booked], fault = Some (Rejects (Error ''Failed to fetch'')) \<rparr>
     1705313700000 1705315500000 ''D'' None
   = Inr \<lparr> hasOverlap = False, conflictingAppointments = [],
           message = Some ''Failed to fetch'' \<rparr>
   \<and> validateAppointmentOverlap
     \<lparr> appointments = [booked], fault = Some (Rejects (Other None)) \<rparr>
     1705313700000 1705315500000 ''D'' None
   = Inr \<lparr> hasOverlap = False, conflictingAppointments = [],
           message = Some ''Error validando solapamientos'' \<rparr>"
  using validateAppointmentOverlap_never_throws
          [of "\<lparr> appointments = [booked], fault = Some (PostgrestError ''connection refused'') \<rparr>"
              1705313700000 1705315500000 "''D''" None]
        validateAppointmentOverlap_never_throws
          [of "\<lparr> appointments = [booked], fault = Some (Rejects (Error ''Failed to fetch'')) \<rparr>"
              1705313700000 1705315500000 "''D''" None]
        validateAppointmentOverlap_never_throws
          [of "\<lparr> appointments = [booked], fault = Some (Rejects (Other None)) \<rparr>"
              1705313700000 1705315500000 "''D''" None]
  by simp

subsection \<open>Appointments in the store\<close>

lemma apply_patch_id [simp]: "id' (apply_patch p now a) = id' a"
  by (simp add: apply_patch_def)

lemma insert_row_keeps:
  "insert_row rows a = Inr rows' \<Longrightarrow> id' ` set rows \<subseteq> id' ` set rows'"
  by (auto simp: insert_row_def split: if_splits)

lemma map_id_update:
  "map id' (map (\<lambda>a. if id' a = i then apply_patch p now a else a) rows) = map id' rows"
  by (induction rows) auto

lemma update_single_keeps:
  assumes "update_single rows i (apply_patch p now) = Inr (x, rows')"
  shows "id' ` set rows \<subseteq> id' ` set rows'"
proof -
  from assms have "rows' = map (\<lambda>a. if id' a = i then apply_patch p now a else a) rows"
    by (auto simp: update_single_def Let_def split: if_splits list.splits)
  then have "map id' rows' = map id' rows"
    by (simp only: map_id_update)
  then have "set (map id' rows') = set (map id' rows)"
    by simp
  then show ?thesis
    by (simp only: set_map)
qed

lemma keeps_refl [simp]: "keeps b b"
  by (simp add: keeps_def)

lemma commit_keeps:
  assumes "\<And>x rows'. w = Inr (x, rows') \<Longrightarrow> id' ` set (appointments b) \<subseteq> id' ` set rows'"
  shows "keeps b (snd (commit b w))"
  using assms by (auto simp: commit_def keeps_def split: option.splits sum.splits)

lemma commit_update_keeps:
  "keeps b (snd (commit b (update_single (appointments b) i (apply_patch p now))))"
  by (rule commit_keeps) (rule update_single_keeps)

lemma commit_insert_keeps:
  "keeps b (snd (commit b (map_sum g (\<lambda>rows'. (x, rows')) (insert_row (appointments b) a))))"
  by (rule commit_keeps) (auto simp: map_sum_def split: sum.splits dest: insert_row_keeps)

lemma createAppointment_keeps: "keeps b (snd (createAppointment b input uuid now))"
  by (simp add: createAppointment_def Let_def split_def commit_insert_keeps split: sum.splits)

lemma updateAppointment_hook_keeps:
  "keeps b (snd (updateAppointment_hook b cache i input now))"
  by (simp add: updateAppointment_hook_def Let_def split_def commit_update_keeps
      split: sum.splits)

lemma create_appointment_safe_keeps:
  "create_appointment_safe rows input st uuid now = Inr (x, rows')
   \<Longrightarrow> id' ` set rows \<subseteq> id' ` set rows'"
  using insert_row_keeps [of rows _ rows']
  by (auto simp: create_appointment_safe_def map_sum_def split: sum.splits if_splits)

lemma createAppointmentSafe_keeps: "keeps b (snd (createAppointmentSafe b input uuid now))"
  by (simp add: createAppointmentSafe_def Let_def split_def)
     (rule commit_keeps, rule create_appointment_safe_keeps)

lemma updateAppointment_keeps: "keeps b (snd (updateAppointment b i patch now))"
  by (simp add: updateAppointment_def Let_def split_def commit_update_keeps split: sum.splits)

lemma status_changes_keep:
  "keeps b (snd (cancelAppointment b i reason now))"
  "keeps b (snd (confirmAppointment b i now))"
  "keeps b (snd (completeAppointment b i notes now))"
  "keeps b (snd (markNoShow b i now))"
  "keeps b (snd (rescheduleAppointment b i s e now))"
  by (simp_all add: cancelAppointment_def confirmAppointment_def completeAppointment_def
      markNoShow_def rescheduleAppointment_def Let_def split_def commit_update_keeps
      updateAppointment_keeps)

lemma perform_keeps: "\<not> removes oper \<Longrightarrow> keeps b (perform b now oper)"
  by (cases oper)
     (simp_all add: createAppointment_keeps updateAppointment_hook_keeps
        createAppointmentSafe_keeps updateAppointment_keeps status_changes_keep)

lemma run_keeps:
  "\<forall>(f, now, oper) \<in> set steps. \<not> removes oper \<Longrightarrow> keeps b (run b steps)"
proof (induction steps arbitrary: b)
  case Nil
  then show ?case by simp
next
  case (Cons step steps)
  obtain f now oper where step: "step = (f, now, oper)"
    by (cases step) auto
  from Cons.prems step have "\<not> removes oper" by simp
  then have "keeps (b\<lparr>fault := f\<rparr>) (perform (b\<lparr>fault := f\<rparr>) now oper)"
    by (rule perform_keeps)
  moreover have "keeps (perform (b\<lparr>fault := f\<rparr>) now oper)
                   (run (perform (b\<lparr>fault := f\<rparr>) now oper) steps)"
    using Cons.prems by (intro Cons.IH) simp
  ultimately show ?case
    by (auto simp: step keeps_def)
qed

lemma cancelAppointment_marks:
  assumes "cancelAppointment b i reason now = (Inr (Some a), b')"
  shows "a \<in> set (appointments b') \<and> id' a = i \<and> status a = cancelled"
proof -
  let ?p = "\<lparr> set_starts_at = None, set_ends_at = None, set_status = Some cancelled,
              set_notes = (case truthy reason of Some r \<Rightarrow> Some (''Cancelada: '' @ r)
                           | None \<Rightarrow> None) \<rparr>"
  let ?w = "update_single (appointments b) i (apply_patch ?p now)"
  from assms have ok: "fault b = None" and w: "?w = Inr (a, appointments b')"
    by (auto simp: cancelAppointment_def Let_def split_def commit_def answer_def unwrap_def
        split: option.splits sum.splits fault.splits)
  let ?rows' = "map (\<lambda>r. if id' r = i then apply_patch ?p now r else r) (appointments b)"
  from w have rows': "appointments b' = ?rows'" and hit: "filter (\<lambda>r. id' r = i) ?rows' = [a]"
    by (auto simp: update_single_def Let_def split: if_splits list.splits)
  from hit have "a \<in> set (filter (\<lambda>r. id' r = i) ?rows')"
    by simp
  then have mem: "a \<in> set ?rows'" and ida: "id' a = i"
    by auto
  from mem ida obtain r where "r \<in> set (appointments b)" and "a = apply_patch ?p now r"
    by (auto split: if_splits)
  then have "status a = cancelled"
    by (simp add: apply_patch_def)
  with mem ida rows' show ?thesis
    by simp
qed

text \<open>
  C8, as stated, fails: the hook's \<open>deleteAppointment\<close> removes the row. After it has
  run on a store that holds only appointment \<open>X\<close>, the store is empty.
\<close>

theorem appointment_never_deleted_counterexample:
  "id' booked = ''X''
   \<and> deleteAppointment \<lparr> appointments = [booked], fault = None \<rparr> ''X''
     = (Inr (), \<lparr> appointments = [], fault = None \<rparr>)
   \<and> run \<lparr> appointments = [booked], fault = None \<rparr> [(None, 1705000000000, HookDelete ''X'')]
     = \<lparr> appointments = [], fault = None \<rparr>"
  by (simp add: booked_def deleteAppointment_def commit_def answer_def delete_rows_def
      unwrap_def rethrow_def)

text \<open>
  C8 (amended): every operation of the module other than the hook's
  \<open>deleteAppointment\<close> keeps the rows: after any sequence of creations, updates,
  cancellations, confirmations, completions, no-show marks and reschedules, under any
  faults of the backend, every appointment id that was stored is still stored; and a
  cancellation that succeeds leaves the row in the store with status \<open>cancelled\<close>.
  \<open>deleteAppointment\<close> removes the row with the given id.
\<close>

theorem appointments_kept_unless_deleted:
  "((\<forall>(f, now, oper) \<in> set steps. \<not> removes oper) \<longrightarrow>
      id' ` set (appointments b) \<subseteq> id' ` set (appointments (run b steps)))
   \<and> (\<forall>a b'. cancelAppointment b i reason now = (Inr (Some a), b') \<longrightarrow>
         a \<in> set (appointments b') \<and> id' a = i \<and> status a = cancelled)
   \<and> (fault b = None \<longrightarrow>
         appointments (snd (deleteAppointment b i)) = filter (\<lambda>a. id' a \<noteq> i) (appointments b))"
proof -
  have kept: "(\<forall>(f, now, oper) \<in> set steps. \<not> removes oper) \<longrightarrow>
      id' ` set (appointments b) \<subseteq> id' ` set (appointments (run b steps))"
  proof
    assume "\<forall>(f, now, oper) \<in> set steps. \<not> removes oper"
    then have "keeps b (run b steps)"
      by (rule run_keeps)
    then show "id' ` set (appointments b) \<subseteq> id' ` set (appointments (run b steps))"
      by (simp add: keeps_def)
  qed
  have marked: "\<forall>a b'. cancelAppointment b i reason now = (Inr (Some a), b') \<longrightarrow>
         a \<in> set (appointments b') \<and> id' a = i \<and> status a = cancelled"
    by (intro allI impI) (rule cancelAppointment_marks)
  have removed: "fault b = None \<longrightarrow>
         appointments (snd (deleteAppointment b i)) = filter (\<lambda>a. id' a \<noteq> i) (appointments b)"
    by (simp add: deleteAppointment_def commit_def delete_rows_def split_def Let_def)
  from kept marked removed show ?thesis
    by (intro conjI)
qed

theorem appointments_kept_unless_deleted_witness:
  "\<not> removes (Cancel ''X'' (Some ''Emergencia'')) \<and> \<not> removes (Confirm ''X'')
   \<and> ''X'' \<in> id' ` set (appointments
        (run \<lparr> appointments = [booked], fault = None \<rparr>
           [(None, 1705000000000, Cancel ''X'' (Some ''Emergencia'')),
            (Some (PostgrestError ''timeout''), 1705000001000, Confirm ''X'')]))
   \<and> cancelAppointment \<lparr> appointments = [booked], fault = None \<rparr> ''X''
         (Some ''Emergencia'') 1705000000000
       = (Inr (Some (booked\<lparr> status := cancelled, notes' := Some ''Cancelada: Emergencia'',
                             updated_at := 1705000000000 \<rparr>)),
          \<lparr> appointments = [booked\<lparr> status := cancelled,
                                    notes' := Some ''Cancelada: Emergencia'',
                                    updated_at := 1705000000000 \<rparr>],
            fault = None \<rparr>)
   \<and> appointments (snd (deleteAppointment \<lparr> appointments = [booked], fault = None \<rparr> ''X''))
       = []"
proof -
  have cancel: "cancelAppointment \<lparr> appointments = [booked], fault = None \<rparr> ''X''
         (Some ''Emergencia'') 1705000000000
       = (Inr (Some (booked\<lparr> status := cancelled, notes' := Some ''Cancelada: Emergencia'',
                             updated_at := 1705000000000 \<rparr>)),
          \<lparr> appointments = [booked\<lparr> status := cancelled,
                                    notes' := Some ''Cancelada: Emergencia'',
                                    updated_at := 1705000000000 \<rparr>],
            fault = None \<rparr>)"
    by (simp add: cancelAppointment_def commit_def answer_def update_single_def
        apply_patch_def unwrap_def booked_def Let_def)
  show ?thesis
    using appointments_kept_unless_deleted
            [of "[(None, 1705000000000, Cancel ''X'' (Some ''Emergencia'')),
                  (Some (PostgrestError ''timeout''), 1705000001000, Confirm ''X'')]"
                "\<lparr> appointments = [booked], fault = None \<rparr>"
                "''X''" "Some ''Emergencia''" 1705000000000]
          cancel
    by (simp add: booked_def)
qed

subsection \<open>Retries of a send\<close>

lemma provider_calls_append [simp]:
  "provider_calls (w @ v) = provider_calls w @ provider_calls v"
  by (induction w rule: provider_calls.induct) auto

lemma delays_append [simp]: "delays (w @ v) = delays w @ delays v"
  by (induction w rule: delays.induct) auto













subsection \<open>Time policy\<close>

lemma wall_clock_Argentina:
  "reads_back P (toLocaleString_Argentina P t)
   \<Longrightarrow> local_seconds (local_zone P) (toArgentinaTimezone P t) = buenos_aires P (t div 1000)"
  by (simp add: local_seconds_def toArgentinaTimezone_def Date_of_local_string_def
      toLocaleString_Argentina_def reads_back_def)

lemma getHours_Argentina:
  "reads_back P (toLocaleString_Argentina P t)
   \<Longrightarrow> getHours (local_zone P) (toArgentinaTimezone P t) = spec_argentina_hour P t"
  by (simp add: getHours_def wall_clock_Argentina spec_argentina_hour_def)

lemma getDay_Argentina:
  "reads_back P (toLocaleString_Argentina P t)
   \<Longrightarrow> getDay (local_zone P) (toArgentinaTimezone P t) = spec_argentina_weekday P t"
  by (simp add: getDay_def wall_clock_Argentina spec_argentina_weekday_def)

lemma isFutureInArgentina_parsed:
  "isFutureInArgentina P now t
   \<longleftrightarrow> local_time P (buenos_aires P (t div 1000)) > local_time P (buenos_aires P (now div 1000))"
  by (simp add: isFutureInArgentina_def toArgentinaTimezone_def nowInArgentina_def
      Date_of_local_string_def toLocaleString_Argentina_def)

lemma isFutureInArgentina_same_second:
  "t div 1000 = now div 1000 \<Longrightarrow> \<not> isFutureInArgentina P now t"
  by (simp add: isFutureInArgentina_parsed)

text \<open>
  C9. \<open>isFutureInArgentina\<close> is not \<open>t\<close> strictly after the current time: whatever the
  platform's zones, a timestamp that is later than the clock's reading but falls in the
  same second is not in the future for the code, because both sides of its comparison
  have been printed to whole seconds. Where the runtime's \<open>new Date(string)\<close> keeps the
  order of wall clocks, \<open>isFutureInArgentina\<close> compares the wall-clock seconds of
  Buenos Aires at \<open>t\<close> and at the current time. \<open>isWeekday(t)\<close> is true exactly when \<open>t\<close>
  falls on Monday to Friday in Buenos Aires, and \<open>isValidMedicalHour(t)\<close> exactly when
  the hour of \<open>t\<close> there is in \<open>[8, 20)\<close>, provided the runtime reads the printed wall
  clock back as it parsed it. The three predicates are total functions of the timestamp,
  the clock's reading and the platform's zones.
\<close>

theorem time_policy:
  "(spec_isFuture now t \<and> t div 1000 = now div 1000
      \<longrightarrow> isFutureInArgentina P now t \<noteq> spec_isFuture now t)
   \<and> (strict_mono (local_time P)
      \<longrightarrow> (isFutureInArgentina P now t
           \<longleftrightarrow> buenos_aires P (t div 1000) > buenos_aires P (now div 1000)))
   \<and> (reads_back P (toLocaleString_Argentina P t)
      \<longrightarrow> (isWeekday P t
             \<longleftrightarrow> 1 \<le> spec_argentina_weekday P t \<and> spec_argentina_weekday P t \<le> 5)
          \<and> (isValidMedicalHour P t
             \<longleftrightarrow> 8 \<le> spec_argentina_hour P t \<and> spec_argentina_hour P t < 20))"
proof -
  have same: "spec_isFuture now t \<and> t div 1000 = now div 1000
      \<longrightarrow> isFutureInArgentina P now t \<noteq> spec_isFuture now t"
    using isFutureInArgentina_same_second [of t now P] by auto
  have ordered: "strict_mono (local_time P)
      \<longrightarrow> (isFutureInArgentina P now t
           \<longleftrightarrow> buenos_aires P (t div 1000) > buenos_aires P (now div 1000))"
    by (simp add: isFutureInArgentina_parsed strict_mono_less)
  have clock: "reads_back P (toLocaleString_Argentina P t)
      \<longrightarrow> (isWeekday P t
             \<longleftrightarrow> 1 \<le> spec_argentina_weekday P t \<and> spec_argentina_weekday P t \<le> 5)
          \<and> (isValidMedicalHour P t
             \<longleftrightarrow> 8 \<le> spec_argentina_hour P t \<and> spec_argentina_hour P t < 20)"
    by (simp add: isWeekday_def isValidMedicalHour_def Let_def getHours_Argentina
        getDay_Argentina)
  from same ordered clock show ?thesis
    by (intro conjI)
qed

text \<open>
  With the clock at 2024-01-15 10:00:00.100 UTC, the timestamp 800 ms later is strictly
  after it and is not in the future for the code; one second after 13:00:00 is.
  Monday 2024-01-15, 13:00 UTC, is 10:00 in Buenos Aires; the Saturday after, 23:30 UTC,
  is 20:30 there; 2008-01-15, 22:30 UTC, a Tuesday, is 20:30 there, at UTC-02:00.
\<close>

theorem time_policy_witness:
  "spec_isFuture 1705312800100 1705312800900
   \<and> \<not> isFutureInArgentina example_platform 1705312800100 1705312800900
   \<and> isFutureInArgentina example_platform 1705323600000 1705323601000
   \<and> \<not> isFutureInArgentina example_platform 1705323600000 1705323600999
   \<and> isWeekday example_platform 1705323600000
   \<and> isValidMedicalHour example_platform 1705323600000
   \<and> \<not> isWeekday example_platform 1705793400000
   \<and> \<not> isValidMedicalHour example_platform 1705793400000
   \<and> isWeekday example_platform 1200436200000
   \<and> \<not> isValidMedicalHour example_platform 1200436200000"
  using time_policy [of 1705312800100 1705312800900 example_platform]
        time_policy [of 1705323600000 1705323601000 example_platform]
        time_policy [of 1705323600000 1705323600999 example_platform]
        time_policy [of 1705323600000 1705323600000 example_platform]
        time_policy [of 1705323600000 1705793400000 example_platform]
        time_policy [of 1705323600000 1200436200000 example_platform]
  by (simp add: spec_isFuture_def spec_argentina_weekday_def spec_argentina_hour_def
      reads_back_def toLocaleString_Argentina_def example_platform_def strict_mono_def)

subsection \<open>Calendar artifacts\<close>

lemma no_CR_simps [simp]:
  "no_CR []" "no_CR (c # s) \<longleftrightarrow> c \<noteq> CHR 0x0D \<and> no_CR s" "no_CR (s @ t) \<longleftrightarrow> no_CR s \<and> no_CR t"
  by (auto simp: no_CR_def)

lemma split_lines_last: "no_CR l \<Longrightarrow> split_lines acc l = [rev acc @ l]"
  by (induction acc l rule: split_lines.induct) auto

lemma split_lines_line:
  "no_CR l \<Longrightarrow> split_lines acc (l @ CRLF @ rest) = (rev acc @ l) # split_lines [] rest"
proof (induction l arbitrary: acc)
  case Nil
  then show ?case by (simp add: CRLF_def)
next
  case (Cons c l)
  obtain d cs where rest: "l @ CRLF @ rest = d # cs"
    by (cases "l @ CRLF @ rest") (auto simp: CRLF_def)
  from Cons.prems have c: "c \<noteq> CHR 0x0D" and l: "no_CR l" by simp_all
  have "split_lines acc ((c # l) @ CRLF @ rest) = split_lines acc (c # d # cs)"
    by (simp add: rest)
  also have "\<dots> = split_lines (c # acc) (d # cs)"
    using c by simp
  also have "\<dots> = split_lines (c # acc) (l @ CRLF @ rest)"
    by (simp add: rest)
  also have "\<dots> = (rev (c # acc) @ l) # split_lines [] rest"
    using l by (rule Cons.IH)
  finally show ?case by simp
qed

lemma split_lines_join:
  "ls \<noteq> [] \<Longrightarrow> \<forall>l \<in> set ls. no_CR l \<Longrightarrow> split_lines [] (join CRLF ls) = ls"
proof (induction CRLF ls rule: join.induct)
  case 1
  then show ?case by simp
next
  case (2 l)
  then show ?case by (simp add: split_lines_last)
next
  case (3 l v va)
  then show ?case
    using split_lines_line [of l "[]" "join CRLF (v # va)"] by simp
qed

lemma no_CR_show_nat: "no_CR (show_nat n)"
proof (induction n rule: show_nat.induct)
  case (1 n)
  have digit: "\<And>k. k < 10 \<Longrightarrow> ''0123456789'' ! k \<noteq> CHR 0x0D"
  proof -
    fix k :: nat
    assume "k < 10"
    then have "k \<in> {0, 1, 2, 3, 4, 5, 6, 7, 8, 9}" by auto
    then show "''0123456789'' ! k \<noteq> CHR 0x0D" by auto
  qed
  show ?case
  proof (cases "n < 10")
    case True
    then show ?thesis by (subst show_nat.simps) (simp add: digit)
  next
    case False
    with 1 have "no_CR (show_nat (n div 10))" by simp
    moreover have "''0123456789'' ! (n mod 10) \<noteq> CHR 0x0D" by (rule digit) simp
    ultimately show ?thesis using False by (subst show_nat.simps) simp
  qed
qed

lemma no_CR_show_int: "no_CR (show_int i)"
  by (simp add: show_int_def no_CR_show_nat)

lemma no_CR_replicate: "c \<noteq> CHR 0x0D \<Longrightarrow> no_CR (replicate n c)"
  by (induction n) auto

lemma no_CR_pad2: "no_CR (pad2 n)"
  by (simp add: pad2_def Let_def no_CR_show_int no_CR_replicate)

lemma no_CR_formatDate: "no_CR (formatDate rt d)"
  by (simp add: formatDate_def Let_def no_CR_show_int no_CR_pad2)

lemma no_CR_replace_all:
  "no_CR r \<Longrightarrow> no_CR s \<or> c = CHR 0x0D \<Longrightarrow> no_CR (replace_all c r s)"
  by (induction s) (auto simp: replace_all_def)

lemma no_CR_escapeText: "no_CR (escapeText s)"
  unfolding escapeText_def by (rule no_CR_replace_all) simp_all

lemma no_CR_show_ICSStatus: "no_CR (show_ICSStatus s)"
  by (cases s) simp_all

lemma generateICS_lines_no_CR:
  assumes "\<forall>u. truthy (uid ev) = Some u \<longrightarrow> no_CR u"
    and "truthy (uid ev) = None \<longrightarrow> no_CR (random36 rt)"
    and "\<forall>p. organizer ev = Some p \<longrightarrow> no_CR (email p)"
    and "\<forall>p. attendee ev = Some p \<longrightarrow> no_CR (email p)"
  shows "\<forall>l \<in> set (generateICS_lines rt ev). no_CR l"
  using assms
  by (auto simp: generateICS_lines_def generateUID_def no_CR_show_int no_CR_formatDate
      no_CR_escapeText no_CR_show_ICSStatus split: option.splits)

lemma property_values_generateICS:
  assumes "\<forall>l \<in> set (generateICS_lines rt ev). no_CR l"
  shows "property_values key (generateICS rt ev)
           = map (drop (length key + 1))
               (filter (\<lambda>l. starts_with l (key @ '':'')) (generateICS_lines rt ev))"
proof -
  have "generateICS_lines rt ev \<noteq> []"
    by (simp add: generateICS_lines_def)
  then have "split_lines [] (generateICS rt ev) = generateICS_lines rt ev"
    unfolding generateICS_def using assms by (rule split_lines_join)
  then show ?thesis
    by (simp add: property_values_def)
qed

lemma METHOD_lines:
  "filter (\<lambda>l. starts_with l ''METHOD:'') (generateICS_lines rt ev) = [''METHOD:REQUEST'']"
  by (simp add: generateICS_lines_def split: option.splits)

lemma UID_lines:
  "filter (\<lambda>l. starts_with l ''UID:'') (generateICS_lines rt ev)
     = [''UID:'' @ (case truthy (uid ev) of Some u \<Rightarrow> u | None \<Rightarrow> generateUID rt)]"
  by (simp add: generateICS_lines_def split: option.splits)

lemma SEQUENCE_lines:
  "filter (\<lambda>l. starts_with l ''SEQUENCE:'') (generateICS_lines rt ev)
     = (case sequence ev of Some n \<Rightarrow> [''SEQUENCE:'' @ show_int n] | None \<Rightarrow> [])"
  by (simp add: generateICS_lines_def split: option.splits)

lemma STATUS_lines:
  "filter (\<lambda>l. starts_with l ''STATUS:'') (generateICS_lines rt ev)
     = (case ics_status ev of Some s \<Rightarrow> [''STATUS:'' @ show_ICSStatus s] | None \<Rightarrow> [])"
  by (simp add: generateICS_lines_def split: option.splits)

text \<open>
  C5: the confirmation artifact and the cancellation artifact of an appointment carry
  the same identifier \<open>id@autamedica.com\<close>, sequence numbers 0 and 1, and the
  cancellation has status \<open>CANCELLED\<close>. Their method is the same: \<open>generateICS\<close>
  writes \<open>METHOD:REQUEST\<close> into every artifact, so the cancellation does not carry
  \<open>CANCEL\<close>.
\<close>

theorem calendar_round_trip:
  assumes "no_CR (id' appt)"
    and "\<forall>e. truthy doctorEmail = Some e \<longrightarrow> no_CR e"
    and "\<forall>e. truthy patientEmail = Some e \<longrightarrow> no_CR e"
  shows "property_values ''UID''
           (generateAppointmentICS rt appt doctorName patientName doctorEmail patientEmail)
           = [id' appt @ ''@autamedica.com'']
       \<and> property_values ''UID''
           (generateCancellationICS rt appt doctorName patientName reason)
           = [id' appt @ ''@autamedica.com'']
       \<and> property_values ''SEQUENCE''
           (generateAppointmentICS rt appt doctorName patientName doctorEmail patientEmail)
           = [''0'']
       \<and> property_values ''SEQUENCE''
           (generateCancellationICS rt appt doctorName patientName reason)
           = [''1'']
       \<and> property_values ''STATUS''
           (generateCancellationICS rt appt doctorName patientName reason)
           = [''CANCELLED'']
       \<and> property_values ''METHOD''
           (generateAppointmentICS rt appt doctorName patientName doctorEmail patientEmail)
           = [''REQUEST'']
       \<and> property_values ''METHOD''
           (generateCancellationICS rt appt doctorName patientName reason)
           = [''REQUEST'']"
proof -
  let ?conf = "appointment_event appt doctorName patientName doctorEmail patientEmail"
  let ?canc = "cancellation_event appt doctorName patientName reason"
  have conf: "\<forall>l \<in> set (generateICS_lines rt ?conf). no_CR l"
    using assms
    by (intro generateICS_lines_no_CR)
       (auto simp: appointment_event_def split: option.splits)
  have canc: "\<forall>l \<in> set (generateICS_lines rt ?canc). no_CR l"
    using assms(1)
    by (intro generateICS_lines_no_CR) (auto simp: cancellation_event_def)
  have zero: "show_int 0 = ''0''" and one: "show_int 1 = ''1''"
    by (simp_all add: show_int_def show_nat.simps)
  have uid_conf: "truthy (uid ?conf) = Some (id' appt @ ''@autamedica.com'')"
    and uid_canc: "truthy (uid ?canc) = Some (id' appt @ ''@autamedica.com'')"
    by (simp_all add: appointment_event_def cancellation_event_def)
  have seq_conf: "sequence ?conf = Some 0" and seq_canc: "sequence ?canc = Some 1"
    and st_canc: "ics_status ?canc = Some CANCELLED"
    by (simp_all add: appointment_event_def cancellation_event_def)
  show ?thesis
    unfolding generateAppointmentICS_def generateCancellationICS_def
      property_values_generateICS [OF conf] property_values_generateICS [OF canc]
    by (simp add: METHOD_lines UID_lines SEQUENCE_lines STATUS_lines
        uid_conf uid_canc seq_conf seq_canc st_canc zero one)
qed

theorem calendar_round_trip_witness:
  "no_CR (id' booked)
   \<and> property_values ''UID''
       (generateAppointmentICS example_runtime booked ''Dr. Garcia'' ''Juan Perez''
          (Some ''garcia@clinic.com'') (Some ''juan@email.com''))
       = [''X@autamedica.com'']
   \<and> property_values ''UID''
       (generateCancellationICS example_runtime booked ''Dr. Garcia'' ''Juan Perez''
          (Some ''Emergencia''))
       = [''X@autamedica.com'']
   \<and> property_values ''METHOD''
       (generateAppointmentICS example_runtime booked ''Dr. Garcia'' ''Juan Perez''
          (Some ''garcia@clinic.com'') (Some ''juan@email.com''))
       = [''REQUEST'']
   \<and> property_values ''METHOD''
       (generateCancellationICS example_runtime booked ''Dr. Garcia'' ''Juan Perez''
          (Some ''Emergencia''))
       = [''REQUEST'']"
  using calendar_round_trip
          [of booked "Some ''garcia@clinic.com''" "Some ''juan@email.com''" example_runtime
              "''Dr. Garcia''" "''Juan Perez''" "Some ''Emergencia''"]
  by (simp add: booked_def)

subsection \<open>Batches of reminders\<close>

lemma loop_collects:
  "sendBatchReminders_loop rt templates emailService common items results w =
     (results\<lparr> successful :=
                 successful results
                 + length (filter (\<lambda>r. \<not> isl r) (item_outcomes rt templates emailService common items w)),
               failed :=
                 failed results
                 + length (filter isl (item_outcomes rt templates emailService common items w)),
               errors :=
                 errors results
                 @ failure_entries items (item_outcomes rt templates emailService common items w) \<rparr>,
      world_after_items rt templates emailService common items w)"
proof (induction items arbitrary: results w)
  case Nil
  then show ?case by simp
next
  case (Cons item rest)
  obtain r w' where step:
    "sendReminderEmail rt templates emailService (merge_options item common) w = (r, w')"
    by (cases "sendReminderEmail rt templates emailService (merge_options item common) w")
  show ?case
  proof (cases r)
    case (Inl err)
    with step show ?thesis
      by (simp add: Cons.IH)
  next
    case (Inr u)
    with step show ?thesis
      by (simp add: Cons.IH)
  qed
qed

lemma length_item_outcomes:
  "length (item_outcomes rt templates emailService common items w) = length items"
  by (induction items arbitrary: w) (auto simp: split_def Let_def)

lemma sendReminderEmail_wrapped:
  assumes "sendReminderEmail rt templates emailService options w = (Inl t, w')"
  shows "\<exists>m. t = Error (''Failed to send reminder email: '' @ m)"
proof -
  obtain r0 w0 where tried:
    "sendReminderEmail_try rt templates emailService options w = (r0, w0)"
    by (cases "sendReminderEmail_try rt templates emailService options w")
  show ?thesis
    using assms unfolding sendReminderEmail_def tried
    by (cases r0) auto
qed

lemma item_outcomes_wrapped:
  "\<forall>r \<in> set (item_outcomes rt templates emailService common items w).
     \<forall>t. r = Inl t \<longrightarrow> (\<exists>m. t = Error (''Failed to send reminder email: '' @ m))"
proof (induction items arbitrary: w)
  case Nil
  then show ?case by simp
next
  case (Cons item rest)
  obtain r w' where step:
    "sendReminderEmail rt templates emailService (merge_options item common) w = (r, w')"
    by (cases "sendReminderEmail rt templates emailService (merge_options item common) w")
  have "\<forall>t. r = Inl t \<longrightarrow> (\<exists>m. t = Error (''Failed to send reminder email: '' @ m))"
  proof (intro allI impI)
    fix t
    assume "r = Inl t"
    with step have "sendReminderEmail rt templates emailService (merge_options item common) w
                      = (Inl t, w')"
      by simp
    then show "\<exists>m. t = Error (''Failed to send reminder email: '' @ m)"
      by (rule sendReminderEmail_wrapped)
  qed
  with Cons.IH [of w'] step show ?case
    by simp
qed

text \<open>
  C3: \<open>sendBatchReminders\<close> attempts every item, one after the other in the order of
  the input, whatever happened to the items before: its world is that of all the sends
  in sequence. In its result \<open>successful + failed\<close> is the number of items, \<open>failed\<close>
  counts the items whose send threw, and \<open>errors\<close> holds one entry per failed item, in
  input order, each \<open>Appointment \<close>, the item's appointment id, \<open>: \<close> and the message
  of what the send threw (always \<open>Failed to send reminder email: \<close> and a cause).
\<close>

theorem sendBatchReminders_collects:
  "sendBatchReminders rt templates emailService items common w
     = (\<lparr> successful =
            length (filter (\<lambda>r. \<not> isl r)
                      (item_outcomes rt templates emailService common items w)),
          failed =
            length (filter isl (item_outcomes rt templates emailService common items w)),
          errors =
            failure_entries items (item_outcomes rt templates emailService common items w) \<rparr>,
        world_after_items rt templates emailService common items w)
   \<and> length (item_outcomes rt templates emailService common items w) = length items
   \<and> successful (fst (sendBatchReminders rt templates emailService items common w))
       + failed (fst (sendBatchReminders rt templates emailService items common w))
       = length items
   \<and> (\<forall>r \<in> set (item_outcomes rt templates emailService common items w).
         \<forall>t. r = Inl t \<longrightarrow> (\<exists>m. t = Error (''Failed to send reminder email: '' @ m)))
   \<and> (\<forall>item m. batch_error item (Error m)
                   = ''Appointment '' @ id' (item_appointment item) @ '': '' @ m)"
proof -
  let ?outs = "item_outcomes rt templates emailService common items w"
  have wrapped: "\<forall>r \<in> set ?outs.
         \<forall>t. r = Inl t \<longrightarrow> (\<exists>m. t = Error (''Failed to send reminder email: '' @ m))"
    by (rule item_outcomes_wrapped)
  have entry: "\<forall>item m. batch_error item (Error m)
                   = ''Appointment '' @ id' (item_appointment item) @ '': '' @ m"
    by (simp add: batch_error_def)
  have run: "sendBatchReminders rt templates emailService items common w
     = (\<lparr> successful = length (filter (\<lambda>r. \<not> isl r) ?outs),
          failed = length (filter isl ?outs),
          errors = failure_entries items ?outs \<rparr>,
        world_after_items rt templates emailService common items w)"
    by (simp add: sendBatchReminders_def loop_collects)
  have "length (filter (\<lambda>r. \<not> isl r) ?outs) + length (filter isl ?outs) = length ?outs"
    using sum_length_filter_compl [of isl ?outs] by simp
  then have total: "successful (fst (sendBatchReminders rt templates emailService items common w))
       + failed (fst (sendBatchReminders rt templates emailService items common w))
       = length items"
    by (simp add: run length_item_outcomes)
  from run length_item_outcomes [of rt templates emailService common items w] total
    wrapped entry
  show ?thesis
    by (intro conjI)
qed

lemma show_nat_digits: "show_nat 2 = ''2''" "show_nat 0 = ''0''"
  by (simp_all add: show_nat.simps)

theorem sendBatchReminders_collects_witness:
  "fst (sendBatchReminders example_runtime plain_templates
          (scripted_service [Inr sent_response, Inl (Error ''Network error''), Inr sent_response])
          batch_items no_common [])
     = \<lparr> successful = 2, failed = 1,
         errors = [''Appointment apt-456: Failed to send reminder email: Network error''] \<rparr>
   \<and> map (\<lambda>m. email (to' m))
       (snd (sendBatchReminders example_runtime plain_templates
               (scripted_service
                  [Inr sent_response, Inl (Error ''Network error''), Inr sent_response])
               batch_items no_common []))
     = [''juan@email.com'', ''maria@email.com'', ''carlos@email.com'']"
  using sendBatchReminders_collects
          [of example_runtime plain_templates
              "scripted_service
                 [Inr sent_response, Inl (Error ''Network error''), Inr sent_response]"
              batch_items no_common "[]"]
  by (simp add: batch_items_def no_common_def plain_templates_def sendReminderEmail_def
      sendReminderEmail_try_def scripted_service_def merge_options_def reminder_params_def
      reminder_message_def batch_error_def Let_def)

subsection \<open>Confirmation e-mails\<close>

lemma sendConfirmationEmail_run:
  assumes "confirmationTemplate templates (confirmation_params options) = Inr html_text"
  shows "sendConfirmationEmail rt templates emailService options w =
     (let ics = generateConfirmationICS rt (appointment options) (name (doctor options))
                  (name (patient options)) (Some (email (doctor options)))
                  (Some (email (patient options)));
          first = emailService (confirmation_patient_message options html_text ics) w;
          second = emailService (confirmation_doctor_message options html_text ics) (snd first)
      in case fst first of
           Inl err \<Rightarrow>
             (Inl (Error (''Failed to send confirmation email: ''
                          @ message_or ''Unknown error'' err)), snd first)
         | Inr response \<Rightarrow>
             if doctor_copy_due options
             then (case fst second of
                     Inl err \<Rightarrow>
                       (Inl (Error (''Failed to send confirmation email: ''
                                    @ message_or ''Unknown error'' err)), snd second)
                   | Inr response2 \<Rightarrow> (Inr (), snd second))
             else (Inr (), snd first))"
  using assms
  by (simp add: sendConfirmationEmail_def sendConfirmationEmail_try_def Let_def split_def
      split: sum.splits)

text \<open>
  C4, as stated, fails: the copy to the doctor is sent inside the same \<open>try\<close> block as
  the patient's message. With a service that delivers the patient's message and fails
  on the doctor's copy, \<open>sendConfirmationEmail\<close> throws, while with both delivered it
  returns.
\<close>

theorem doctor_copy_independent_counterexample:
  "fst (sendConfirmationEmail example_runtime plain_templates
          (scripted_service [Inr sent_response, Inl (Error ''Mailbox unavailable'')])
          confirmation_options [])
     = Inl (Error ''Failed to send confirmation email: Mailbox unavailable'')
   \<and> map (\<lambda>m. email (to' m))
       (snd (sendConfirmationEmail example_runtime plain_templates
               (scripted_service [Inr sent_response, Inl (Error ''Mailbox unavailable'')])
               confirmation_options []))
     = [''juan@email.com'', ''garcia@clinic.com'']
   \<and> fst (sendConfirmationEmail example_runtime plain_templates
          (scripted_service [Inr sent_response, Inr sent_response])
          confirmation_options [])
     = Inr ()"
  by (simp add: sendConfirmationEmail_def sendConfirmationEmail_try_def plain_templates_def
      confirmation_options_def scripted_service_def doctor_copy_due_def
      confirmation_patient_message_def confirmation_doctor_message_def Let_def)

text \<open>
  C4 (amended): when the template renders and the patient's message is delivered, a
  doctor whose address is not empty and differs from the patient's gets a second
  message, and \<open>sendConfirmationEmail\<close> returns if that copy is delivered and throws
  \<open>Failed to send confirmation email: \<close> with the cause if it is not. When the two
  addresses are equal, the service is asked for exactly one delivery, the patient's.
\<close>

theorem sendConfirmationEmail_deliveries:
  fixes rt :: Runtime and options :: "'a AppointmentEmailOptions_scheme"
  defines "ics \<equiv> generateConfirmationICS rt (appointment options) (name (doctor options))
                    (name (patient options)) (Some (email (doctor options)))
                    (Some (email (patient options)))"
  assumes rendered: "confirmationTemplate templates (confirmation_params options) = Inr html_text"
  shows "(\<forall>response w1.
            email (doctor options) \<noteq> [] \<and> email (doctor options) \<noteq> email (patient options)
            \<and> emailService (confirmation_patient_message options html_text ics) w
                = (Inr response, w1)
            \<longrightarrow> sendConfirmationEmail rt templates emailService options w
                = (case emailService (confirmation_doctor_message options html_text ics) w1 of
                     (Inl err, w2) \<Rightarrow>
                       (Inl (Error (''Failed to send confirmation email: ''
                                    @ message_or ''Unknown error'' err)), w2)
                   | (Inr response2, w2) \<Rightarrow> (Inr (), w2)))
       \<and> (email (doctor options) = email (patient options)
            \<longrightarrow> sendConfirmationEmail rt templates emailService options w
                = (case emailService (confirmation_patient_message options html_text ics) w of
                     (Inl err, w1) \<Rightarrow>
                       (Inl (Error (''Failed to send confirmation email: ''
                                    @ message_or ''Unknown error'' err)), w1)
                   | (Inr response, w1) \<Rightarrow> (Inr (), w1)))"
proof -
  note run = sendConfirmationEmail_run [OF rendered, of rt emailService w, folded ics_def]
  have copy: "\<forall>response w1.
            email (doctor options) \<noteq> [] \<and> email (doctor options) \<noteq> email (patient options)
            \<and> emailService (confirmation_patient_message options html_text ics) w
                = (Inr response, w1)
            \<longrightarrow> sendConfirmationEmail rt templates emailService options w
                = (case emailService (confirmation_doctor_message options html_text ics) w1 of
                     (Inl err, w2) \<Rightarrow>
                       (Inl (Error (''Failed to send confirmation email: ''
                                    @ message_or ''Unknown error'' err)), w2)
                   | (Inr response2, w2) \<Rightarrow> (Inr (), w2))"
    by (simp add: run Let_def doctor_copy_due_def split: prod.splits sum.splits)
  have single: "email (doctor options) = email (patient options)
            \<longrightarrow> sendConfirmationEmail rt templates emailService options w
                = (case emailService (confirmation_patient_message options html_text ics) w of
                     (Inl err, w1) \<Rightarrow>
                       (Inl (Error (''Failed to send confirmation email: ''
                                    @ message_or ''Unknown error'' err)), w1)
                   | (Inr response, w1) \<Rightarrow> (Inr (), w1))"
    by (simp add: run Let_def doctor_copy_due_def split: prod.splits sum.splits)
  from copy single show ?thesis
    by (intro conjI)
qed

theorem sendConfirmationEmail_deliveries_witness:
  "confirmationTemplate plain_templates (confirmation_params confirmation_options)
     = Inr ''<html><body>Tu cita con Juan Perez</body></html>''
   \<and> sendConfirmationEmail example_runtime plain_templates
       (scripted_service [Inr sent_response, Inl (Other None)]) confirmation_options []
     = (Inl (Error ''Failed to send confirmation email: Unknown error''),
        [confirmation_patient_message confirmation_options
           ''<html><body>Tu cita con Juan Perez</body></html>''
           (generateConfirmationICS example_runtime booked ''Dr. Garcia'' ''Juan Perez''
              (Some ''garcia@clinic.com'') (Some ''juan@email.com'')),
         confirmation_doctor_message confirmation_options
           ''<html><body>Tu cita con Juan Perez</body></html>''
           (generateConfirmationICS example_runtime booked ''Dr. Garcia'' ''Juan Perez''
              (Some ''garcia@clinic.com'') (Some ''juan@email.com''))])
   \<and> html (confirmation_doctor_message confirmation_options
              ''<html><body>Tu cita con Juan Perez</body></html>''
              (generateConfirmationICS example_runtime booked ''Dr. Garcia'' ''Juan Perez''
                 (Some ''garcia@clinic.com'') (Some ''juan@email.com'')))
     = ''<html><body>La cita con Juan Perez con Dr. Garcia</body></html>''
   \<and> length (snd (sendConfirmationEmail example_runtime plain_templates
                     (scripted_service []) shared_address_options []))
     = 1"
  using sendConfirmationEmail_deliveries
          [where templates = plain_templates and options = confirmation_options
             and html_text = "''<html><body>Tu cita con Juan Perez</body></html>''"
             and rt = example_runtime
             and emailService = "scripted_service [Inr sent_response, Inl (Other None)]"
             and w = "[]"]
        sendConfirmationEmail_deliveries
          [where templates = plain_templates and options = shared_address_options
             and html_text = "''<html><body>Tu cita con Juan Perez</body></html>''"
             and rt = example_runtime
             and emailService = "scripted_service []"
             and w = "[]"]
  by (simp add: plain_templates_def confirmation_options_def shared_address_options_def
      scripted_service_def confirmation_doctor_message_def)

end
